theory Spec2Isabelle
  imports Main
begin

section \<open>The disk cache of rsc/cloud (package diskcache)\<close>

text \<open>
  A shallow embedding of \<^verbatim>\<open>diskcache\<close>: \<^verbatim>\<open>Cache.Open\<close>, \<^verbatim>\<open>ReadFile\<close>,
  \<^verbatim>\<open>Delete\<close>, \<^verbatim>\<open>Expire\<close> and the helpers they call. The package works on the
  file system, so the model passes an explicit world: the directory entries, the open
  file descriptors, the clock, the state of the remote side the loader talks to, and a
  log of the loader's invocations.

  The operating system is modelled as far as the package uses it:
  \<^item> a name is bound to at most one file (no hard links); a file has its bytes, its
    modification time and, for a disk that fails, a read fault;
  \<^item> a descriptor follows its file through rename and keeps it after unlink;
  \<^item> a call fails only for the reason the name space gives (a missing or an existing
    name, a closed descriptor, a read fault); directories always exist, so
    \<^verbatim>\<open>os.Mkdir\<close> in \<^verbatim>\<open>locate\<close> is left out;
  \<^item> one thread of control: \<^verbatim>\<open>flock\<close> marks the descriptor and never waits;
  \<^item> the clock does not advance during one call of the package; between calls the
    caller sets \<open>now\<close>.
  Times are nanoseconds since the Unix epoch, durations nanoseconds.
\<close>

subsection \<open>Data\<close>

type_synonym bytes = string

datatype error =
    ENOENT
  | EEXIST
  | EBADF
  | EIO string
  | SyntaxError
  | LoadError string
  | Errorf string error

text \<open>\<^verbatim>\<open>os.IsNotExist\<close>: a wrapped error made by \<^verbatim>\<open>fmt.Errorf\<close> is not one.\<close>

fun os_IsNotExist :: "error \<Rightarrow> bool" where
  "os_IsNotExist ENOENT = True"
| "os_IsNotExist e = False"

record inode =
  content :: bytes
  mtime :: int
  rfault :: "(nat \<times> string) option"

datatype link = Linked string | Unlinked inode

record fdesc =
  fd_link :: link
  fd_locked :: bool

text \<open>
  What one call of \<^verbatim>\<open>Loader.Load\<close> does: its three results, and the bytes the
  target file holds when it returns.
\<close>

record load_result =
  cacheValid :: bool
  newMeta :: bytes
  lerr :: "error option"
  written :: bytes

record 's world =
  names :: "string \<rightharpoonup> inode"
  fds :: "nat \<rightharpoonup> fdesc"
  next_fd :: nat
  now :: int
  remote :: 's
  calls :: "(string \<times> bytes \<times> load_result) list"

text \<open>\<^verbatim>\<open>metaDisk\<close>, the on-disk metadata; a nil \<^verbatim>\<open>[]byte\<close> is the empty list.\<close>

record metaDisk =
  Path :: string
  CreateTime :: int
  RefreshTime :: int
  Load :: bytes

text \<open>The zero \<^verbatim>\<open>time.Time\<close> is January 1 of year 1.\<close>

definition zero_Time :: int where
  "zero_Time = - 62135596800000000000"

definition zero_metaDisk :: metaDisk where
  "zero_metaDisk = \<lparr>Path = [], CreateTime = zero_Time, RefreshTime = zero_Time, Load = []\<rparr>"

record 's Cache =
  dir :: string
  loader :: "'s \<Rightarrow> string \<Rightarrow> bytes \<Rightarrow> load_result \<times> 's"
  atomicExpiration :: int
  atomicMaxData :: int

text \<open>
  The functions of Go's standard library that the package calls on values, not on the
  file system, are parameters: \<^verbatim>\<open>path.Clean\<close>, \<^verbatim>\<open>sha1.Sum\<close> printed
  with \<^verbatim>\<open>%x\<close>, \<^verbatim>\<open>json.Marshal\<close> and \<^verbatim>\<open>json.Unmarshal\<close> at
  \<^verbatim>\<open>metaDisk\<close>.
\<close>

record stdlib =
  path_Clean :: "string \<Rightarrow> string"
  sha1_hex :: "string \<Rightarrow> string"
  json_Marshal :: "metaDisk \<Rightarrow> error + bytes"
  json_Unmarshal :: "bytes \<Rightarrow> error + metaDisk"

subsection \<open>The file system calls\<close>

definition os_Stat :: "'s world \<Rightarrow> string \<Rightarrow> error + inode" where
  "os_Stat w name = (case names w name of None \<Rightarrow> Inl ENOENT | Some f \<Rightarrow> Inr f)"

definition open_fd :: "'s world \<Rightarrow> string \<Rightarrow> (error + nat) \<times> 's world" where
  "open_fd w name =
     (Inr (next_fd w),
      w\<lparr>fds := (fds w)(next_fd w \<mapsto> \<lparr>fd_link = Linked name, fd_locked = False\<rparr>),
        next_fd := Suc (next_fd w)\<rparr>)"

text \<open>\<^verbatim>\<open>os.Open(name)\<close> and \<^verbatim>\<open>os.OpenFile(name, os.O_RDWR, 0666)\<close>.\<close>

definition os_Open :: "'s world \<Rightarrow> string \<Rightarrow> (error + nat) \<times> 's world" where
  "os_Open w name = (case names w name of None \<Rightarrow> (Inl ENOENT, w) | Some f \<Rightarrow> open_fd w name)"

definition os_OpenFile_RDWR :: "'s world \<Rightarrow> string \<Rightarrow> (error + nat) \<times> 's world" where
  "os_OpenFile_RDWR w name =
     (case names w name of None \<Rightarrow> (Inl ENOENT, w) | Some f \<Rightarrow> open_fd w name)"

text \<open>\<^verbatim>\<open>os.OpenFile(name, os.O_RDWR|os.O_CREATE|os.O_EXCL, 0666)\<close>.\<close>

definition os_OpenFile_CREATE_EXCL :: "'s world \<Rightarrow> string \<Rightarrow> (error + nat) \<times> 's world" where
  "os_OpenFile_CREATE_EXCL w name =
     (case names w name of
        Some f \<Rightarrow> (Inl EEXIST, w)
      | None \<Rightarrow>
          open_fd (w\<lparr>names := (names w)(name \<mapsto> \<lparr>content = [], mtime = now w, rfault = None\<rparr>)\<rparr>)
            name)"

definition File_Close :: "'s world \<Rightarrow> nat \<Rightarrow> error option \<times> 's world" where
  "File_Close w fd =
     (case fds w fd of None \<Rightarrow> (Some EBADF, w) | Some d \<Rightarrow> (None, w\<lparr>fds := (fds w)(fd := None)\<rparr>))"

definition fd_file :: "'s world \<Rightarrow> nat \<Rightarrow> inode option" where
  "fd_file w fd =
     (case fds w fd of
        None \<Rightarrow> None
      | Some d \<Rightarrow> (case fd_link d of Linked n \<Rightarrow> names w n | Unlinked f \<Rightarrow> Some f))"

definition File_Stat :: "'s world \<Rightarrow> nat \<Rightarrow> error + inode" where
  "File_Stat w fd = (case fd_file w fd of None \<Rightarrow> Inl EBADF | Some f \<Rightarrow> Inr f)"

text \<open>\<^verbatim>\<open>ioutil.ReadAll\<close> returns the bytes read before an error together with it.\<close>

definition ioutil_ReadAll :: "'s world \<Rightarrow> nat \<Rightarrow> bytes \<times> error option" where
  "ioutil_ReadAll w fd =
     (case fd_file w fd of
        None \<Rightarrow> ([], Some EBADF)
      | Some f \<Rightarrow>
          (case rfault f of
             None \<Rightarrow> (content f, None)
           | Some (k, msg) \<Rightarrow> (take k (content f), Some (EIO msg))))"

definition detach :: "string \<Rightarrow> inode \<Rightarrow> fdesc \<Rightarrow> fdesc" where
  "detach name f d = (if fd_link d = Linked name then d\<lparr>fd_link := Unlinked f\<rparr> else d)"

definition relink :: "string \<Rightarrow> string \<Rightarrow> fdesc \<Rightarrow> fdesc" where
  "relink old new d = (if fd_link d = Linked old then d\<lparr>fd_link := Linked new\<rparr> else d)"

definition os_Remove :: "'s world \<Rightarrow> string \<Rightarrow> error option \<times> 's world" where
  "os_Remove w name =
     (case names w name of
        None \<Rightarrow> (Some ENOENT, w)
      | Some f \<Rightarrow>
          (None, w\<lparr>names := (names w)(name := None),
                   fds := (\<lambda>k. map_option (detach name f) (fds w k))\<rparr>))"

definition os_Rename :: "'s world \<Rightarrow> string \<Rightarrow> string \<Rightarrow> error option \<times> 's world" where
  "os_Rename w old new =
     (case names w old of
        None \<Rightarrow> (Some ENOENT, w)
      | Some f \<Rightarrow>
          if old = new then (None, w)
          else
            (None,
             w\<lparr>names := ((names w)(old := None))(new \<mapsto> f),
               fds := (\<lambda>k. map_option
                        (\<lambda>d. relink old new
                           (case names w new of None \<Rightarrow> d | Some g \<Rightarrow> detach new g d))
                        (fds w k))\<rparr>))"

text \<open>\<^verbatim>\<open>ioutil.WriteFile\<close> creates or truncates the file and writes it whole.\<close>

definition ioutil_WriteFile :: "'s world \<Rightarrow> string \<Rightarrow> bytes \<Rightarrow> error option \<times> 's world" where
  "ioutil_WriteFile w name data =
     (None,
      w\<lparr>names := (names w)(name \<mapsto>
          (case names w name of
             None \<Rightarrow> \<lparr>content = data, mtime = now w, rfault = None\<rparr>
           | Some f \<Rightarrow> f\<lparr>content := data, mtime := now w\<rparr>))\<rparr>)"

definition os_Chtimes :: "'s world \<Rightarrow> string \<Rightarrow> int \<Rightarrow> int \<Rightarrow> error option \<times> 's world" where
  "os_Chtimes w name atime mt =
     (case names w name of
        None \<Rightarrow> (Some ENOENT, w)
      | Some f \<Rightarrow> (None, w\<lparr>names := (names w)(name \<mapsto> f\<lparr>mtime := mt\<rparr>)\<rparr>))"

definition syscall_Flock :: "'s world \<Rightarrow> nat \<Rightarrow> error option \<times> 's world" where
  "syscall_Flock w fd =
     (case fds w fd of
        None \<Rightarrow> (Some EBADF, w)
      | Some d \<Rightarrow> (None, w\<lparr>fds := (fds w)(fd \<mapsto> d\<lparr>fd_locked := True\<rparr>)\<rparr>))"

text \<open>The bytes a descriptor's file holds once its writer is done.\<close>

definition File_Write :: "'s world \<Rightarrow> nat \<Rightarrow> bytes \<Rightarrow> 's world" where
  "File_Write w fd data =
     (case fds w fd of
        None \<Rightarrow> w
      | Some d \<Rightarrow>
          (case fd_link d of
             Linked n \<Rightarrow>
               (case names w n of
                  None \<Rightarrow> w
                | Some f \<Rightarrow> w\<lparr>names := (names w)(n \<mapsto> f\<lparr>content := data, mtime := now w\<rparr>)\<rparr>)
           | Unlinked f \<Rightarrow>
               w\<lparr>fds := (fds w)(fd \<mapsto> d\<lparr>fd_link := Unlinked (f\<lparr>content := data, mtime := now w\<rparr>)\<rparr>)\<rparr>))"

text \<open>
  \<^verbatim>\<open>c.loader.Load(path, next, meta.Load)\<close>: the loader answers from the remote
  state, the target file holds what it wrote, and the call is logged.
\<close>

definition call_Load ::
  "'s Cache \<Rightarrow> 's world \<Rightarrow> string \<Rightarrow> nat \<Rightarrow> bytes \<Rightarrow> load_result \<times> 's world" where
  "call_Load c w path target meta =
     (let (r, s) = loader c (remote w) path meta;
          w1 = File_Write w target (written r)
      in (r, w1\<lparr>remote := s, calls := calls w1 @ [(path, meta, r)]\<rparr>))"

subsection \<open>The cache\<close>

text \<open>
  \<^verbatim>\<open>New\<close> without its \<^verbatim>\<open>os.Mkdir\<close> (directories are not modelled). The two
  atomic \<^verbatim>\<open>int64\<close> fields are only stored, loaded and compared; the one sum they
  enter, \<^verbatim>\<open>fi.ModTime().Add(d)\<close>, is a \<^verbatim>\<open>time.Time\<close>, which does not wrap.
\<close>

definition New :: "string \<Rightarrow> ('s \<Rightarrow> string \<Rightarrow> bytes \<Rightarrow> load_result \<times> 's) \<Rightarrow> 's Cache" where
  "New d l = \<lparr>dir = d, loader = l, atomicExpiration = 0, atomicMaxData = 0\<rparr>"

definition SetExpiration :: "'s Cache \<Rightarrow> int \<Rightarrow> 's Cache" where
  "SetExpiration c d = c\<lparr>atomicExpiration := d\<rparr>"

definition expiration :: "'s Cache \<Rightarrow> int" where
  "expiration c = atomicExpiration c"

definition SetMaxData :: "'s Cache \<Rightarrow> int \<Rightarrow> 's Cache" where
  "SetMaxData c m = c\<lparr>atomicMaxData := m\<rparr>"

definition maxData :: "'s Cache \<Rightarrow> int" where
  "maxData c = atomicMaxData c"

text \<open>
  \<^verbatim>\<open>locate\<close>: \<open>h\<close> is the 40 hexadecimal digits of the SHA-1 sum;
  \<^verbatim>\<open>filepath.Join\<close> puts a slash between the directory, \<^verbatim>\<open>h[0:3]\<close> and
  \<^verbatim>\<open>h[3:]\<close>.
\<close>

definition locate :: "stdlib \<Rightarrow> 's Cache \<Rightarrow> string \<Rightarrow> string \<times> string" where
  "locate lib c path =
     (let cleaned = path_Clean lib (''/'' @ path);
          h = sha1_hex lib cleaned
      in (cleaned, dir c @ ''/'' @ take 3 h @ ''/'' @ drop 3 h))"

definition metaLock :: "'s world \<Rightarrow> string \<Rightarrow> (error + nat) \<times> 's world" where
  "metaLock w prefix =
     (let name = prefix @ ''.meta'' in
      case os_OpenFile_RDWR w name of
        (Inl err, w1) \<Rightarrow> (Inl err, w1)
      | (Inr f, w1) \<Rightarrow>
          (case syscall_Flock w1 f of
             (Some err, w2) \<Rightarrow> (Inl err, snd (File_Close w2 f))
           | (None, w2) \<Rightarrow> (Inr f, w2)))"

text \<open>\<^verbatim>\<open>checkDataLimit\<close> has an empty body.\<close>

definition checkDataLimit :: "'s Cache \<Rightarrow> 's world \<Rightarrow> int \<Rightarrow> 's world" where
  "checkDataLimit c w newSize = w"

text \<open>
  \<^verbatim>\<open>Open\<close>, in the order of its source. \<open>Open_lock\<close> is ``lock .meta file,
  creating it if necessary''; \<open>Open_locked\<close> the double check under the lock;
  \<open>Open_refresh\<close> reads the metadata (\<open>Open_read_meta\<close>), creates \<^verbatim>\<open>.next\<close>
  (\<open>Open_create_next\<close>) and calls the loader;
  \<open>Open_install\<close> is the rest, from \<^verbatim>\<open>meta.RefreshTime = time.Now()\<close> on.
  The deferred \<^verbatim>\<open>metaFile.Close()\<close> runs in \<open>Open\<close>, on every return after the lock
  is held.
\<close>

definition Open_install ::
  "stdlib \<Rightarrow> 's Cache \<Rightarrow> 's world \<Rightarrow> string \<Rightarrow> string \<Rightarrow> nat \<Rightarrow> metaDisk \<Rightarrow> nat \<Rightarrow> bool \<Rightarrow> bytes
     \<Rightarrow> (error + nat) \<times> 's world" where
  "Open_install lib c w path prefix metaFile meta nxt valid metaLoad =
     (let meta1 = meta\<lparr>RefreshTime := now w\<rparr> in
      case
        (if valid then
           (let w1 = snd (File_Close w nxt);
                w2 = snd (os_Remove w1 (prefix @ ''.next''))
            in Inr (meta1, 0, w2))
         else
           (let meta2 = meta1\<lparr>CreateTime := RefreshTime meta1\<rparr> in
            case File_Stat w nxt of
              Inl err \<Rightarrow> Inl (Errorf ''writing cached file: '' err, w)
            | Inr fi \<Rightarrow>
                (let nextSize = int (length (content fi)) in
                 case File_Close w nxt of
                   (Some err, w1) \<Rightarrow> Inl (Errorf ''writing cached file: '' err, w1)
                 | (None, w1) \<Rightarrow>
                     (case os_Rename w1 (prefix @ ''.next'') (prefix @ ''.data'') of
                        (Some err, w2) \<Rightarrow> Inl (Errorf ''installing cached file: '' err, w2)
                      | (None, w2) \<Rightarrow> Inr (meta2, nextSize, w2)))))
      of
        Inl (e, w3) \<Rightarrow> (Inl e, w3)
      | Inr (meta3, nextSize, w3) \<Rightarrow>
          (let meta4 = meta3\<lparr>Load := metaLoad, Path := path\<rparr> in
           case json_Marshal lib meta4 of
             Inl err \<Rightarrow> (Inl (Errorf ''preparing meta file: '' err), w3)
           | Inr js \<Rightarrow>
               (let w4 = snd (ioutil_WriteFile w3 (prefix @ ''.meta'') js) in
                case os_Open w4 (prefix @ ''.data'') of
                  (Inl err, w5) \<Rightarrow> (Inl err, w5)
                | (Inr data, w5) \<Rightarrow>
                    (let w6 = snd (File_Close w5 metaFile);
                         w7 = (if nextSize > 0 then checkDataLimit c w6 nextSize else w6)
                     in (Inr data, w7)))))"

text \<open>``Read metadata'': an empty file leaves the zero \<^verbatim>\<open>metaDisk\<close>.\<close>

definition decode_meta :: "stdlib \<Rightarrow> bytes \<Rightarrow> error + metaDisk" where
  "decode_meta lib js = (if length js > 0 then json_Unmarshal lib js else Inr zero_metaDisk)"

definition Open_read_meta :: "stdlib \<Rightarrow> 's world \<Rightarrow> nat \<Rightarrow> error + metaDisk" where
  "Open_read_meta lib w metaFile =
     (case ioutil_ReadAll w metaFile of
        (js, Some err) \<Rightarrow> Inl (Errorf ''reading metadata file: '' err)
      | (js, None) \<Rightarrow>
          (case decode_meta lib js of
             Inl err \<Rightarrow> Inl (Errorf ''reading metadata file: '' err)
           | Inr meta \<Rightarrow> Inr meta))"

text \<open>Creating \<^verbatim>\<open>.next\<close>, once more after removing a stale one.\<close>

definition Open_create_next :: "'s world \<Rightarrow> string \<Rightarrow> (error + nat) \<times> 's world" where
  "Open_create_next w prefix =
     (case os_OpenFile_CREATE_EXCL w (prefix @ ''.next'') of
        (Inr nxt, w1) \<Rightarrow> (Inr nxt, w1)
      | (Inl err0, w1) \<Rightarrow>
          (case os_OpenFile_CREATE_EXCL (snd (os_Remove w1 (prefix @ ''.next'')))
                  (prefix @ ''.next'') of
             (Inr nxt, w2) \<Rightarrow> (Inr nxt, w2)
           | (Inl err, w2) \<Rightarrow> (Inl (Errorf ''creating cached file: '' err), w2)))"

definition Open_refresh ::
  "stdlib \<Rightarrow> 's Cache \<Rightarrow> 's world \<Rightarrow> string \<Rightarrow> string \<Rightarrow> nat \<Rightarrow> bool
     \<Rightarrow> (error + nat) \<times> 's world" where
  "Open_refresh lib c w path prefix metaFile errData =
     (case Open_read_meta lib w metaFile of
        Inl err \<Rightarrow> (Inl err, w)
      | Inr meta0 \<Rightarrow>
          (let (meta, w1) =
                 (if errData
                  then (meta0\<lparr>Load := []\<rparr>, snd (os_Remove w (prefix @ ''.data'')))
                  else (meta0, w))
           in
           case Open_create_next w1 prefix of
             (Inl err, w3) \<Rightarrow> (Inl err, w3)
           | (Inr nxt, w3) \<Rightarrow>
               (let (r, w4) = call_Load c w3 path nxt (Load meta) in
                case lerr r of
                  Some err \<Rightarrow> (Inl err, snd (File_Close w4 nxt))
                | None \<Rightarrow>
                    Open_install lib c w4 path prefix metaFile meta nxt
                      (cacheValid r) (newMeta r))))"

definition Open_locked ::
  "stdlib \<Rightarrow> 's Cache \<Rightarrow> 's world \<Rightarrow> string \<Rightarrow> string \<Rightarrow> nat \<Rightarrow> int
     \<Rightarrow> (error + nat) \<times> 's world" where
  "Open_locked lib c w path prefix metaFile d =
     (case File_Stat w metaFile of
        Inl err \<Rightarrow> (Inl (Errorf ''stat'ing metadata file: '' err), snd (File_Close w metaFile))
      | Inr fi \<Rightarrow>
          (case os_Open w (prefix @ ''.data'') of
             (Inr data, w1) \<Rightarrow>
               if d = 0 \<or> now w1 < mtime fi + d then (Inr data, w1)
               else Open_refresh lib c (snd (File_Close w1 data)) path prefix metaFile False
           | (Inl errData, w1) \<Rightarrow> Open_refresh lib c w1 path prefix metaFile True))"

definition Open_lock :: "'s world \<Rightarrow> string \<Rightarrow> (error + nat) \<times> 's world" where
  "Open_lock w prefix =
     (case metaLock w prefix of
        (Inr metaFile, w1) \<Rightarrow> (Inr metaFile, w1)
      | (Inl err0, w1) \<Rightarrow>
          (let (created, w2) = os_OpenFile_CREATE_EXCL w1 (prefix @ ''.meta'');
               w3 = (case created of Inr f \<Rightarrow> snd (File_Close w2 f) | Inl errCreate \<Rightarrow> w2)
           in
           case metaLock w3 prefix of
             (Inr metaFile, w4) \<Rightarrow> (Inr metaFile, w4)
           | (Inl err, w4) \<Rightarrow>
               (case created of
                  Inl errCreate \<Rightarrow> (Inl (Errorf ''creating metadata file: '' errCreate), w4)
                | Inr f \<Rightarrow> (Inl err, w4))))"

definition Open :: "stdlib \<Rightarrow> 's Cache \<Rightarrow> 's world \<Rightarrow> string \<Rightarrow> (error + nat) \<times> 's world" where
  "Open lib c w path0 =
     (let (path, prefix) = locate lib c path0;
          d = expiration c;
          fast =
            (case os_Stat w (prefix @ ''.meta'') of
               Inl err \<Rightarrow> None
             | Inr fi \<Rightarrow>
                 if d = 0 \<or> now w < mtime fi + d
                 then (case os_Open w (prefix @ ''.data'') of
                         (Inr data, w1) \<Rightarrow> Some (data, w1)
                       | (Inl err, w1) \<Rightarrow> None)
                 else None)
      in
      case fast of
        Some (data, w1) \<Rightarrow> (Inr data, w1)
      | None \<Rightarrow>
          (case Open_lock w prefix of
             (Inl err, w2) \<Rightarrow> (Inl err, w2)
           | (Inr metaFile, w2) \<Rightarrow>
               (let (r, w3) = Open_locked lib c w2 path prefix metaFile d
                in (r, snd (File_Close w3 metaFile)))))"

definition ReadFile ::
  "stdlib \<Rightarrow> 's Cache \<Rightarrow> 's world \<Rightarrow> string \<Rightarrow> (bytes \<times> error option) \<times> 's world" where
  "ReadFile lib c w path =
     (case Open lib c w path of
        (Inl err, w1) \<Rightarrow> (([], Some err), w1)
      | (Inr f, w1) \<Rightarrow> (ioutil_ReadAll w1 f, snd (File_Close w1 f)))"

definition Delete :: "stdlib \<Rightarrow> 's Cache \<Rightarrow> 's world \<Rightarrow> string \<Rightarrow> error option \<times> 's world" where
  "Delete lib c w path0 =
     (let (path, prefix) = locate lib c path0 in
      case metaLock w prefix of
        (Inl err, w1) \<Rightarrow> if os_IsNotExist err then (None, w1) else (Some err, w1)
      | (Inr metaFile, w1) \<Rightarrow>
          (let w2 = snd (os_Remove w1 (prefix @ ''.data''));
               w3 = snd (os_Remove w2 (prefix @ ''.next''));
               w4 = snd (os_Remove w3 (prefix @ ''.used''));
               (err, w5) = os_Remove w4 (prefix @ ''.meta'');
               w6 = snd (File_Close w5 metaFile)
           in
           case err of
             None \<Rightarrow> (None, w6)
           | Some e \<Rightarrow> if os_IsNotExist e then (None, w6) else (Some e, w6)))"

definition Expire :: "stdlib \<Rightarrow> 's Cache \<Rightarrow> 's world \<Rightarrow> string \<Rightarrow> error option \<times> 's world" where
  "Expire lib c w path0 =
     (let (path, prefix) = locate lib c path0;
          t = 0;
          (err, w1) = os_Chtimes w (prefix @ ''.meta'') t t
      in
      case err of
        None \<Rightarrow> (None, w1)
      | Some e \<Rightarrow> if os_IsNotExist e then (None, w1) else (Some e, w1))"

text \<open>
  Two notions for stating what \<^verbatim>\<open>Open\<close> does. \<open>meta_inode\<close> is the
  \<^verbatim>\<open>.meta\<close> file \<^verbatim>\<open>Open\<close> works on: the one on disk, or the empty one it
  creates. \<open>cache_hit\<close> is the test both checks of \<^verbatim>\<open>Open\<close> make: the
  \<^verbatim>\<open>.data\<close> file opens, and the expiration is zero or the \<^verbatim>\<open>.meta\<close> file's
  modification time plus the expiration is still ahead.
\<close>

definition meta_inode :: "'s world \<Rightarrow> string \<Rightarrow> inode" where
  "meta_inode w prefix =
     (case names w (prefix @ ''.meta'') of
        None \<Rightarrow> \<lparr>content = [], mtime = now w, rfault = None\<rparr>
      | Some fi \<Rightarrow> fi)"

definition cache_hit :: "'s Cache \<Rightarrow> 's world \<Rightarrow> string \<Rightarrow> bool" where
  "cache_hit c w prefix =
     (names w (prefix @ ''.data'') \<noteq> None \<and>
      (expiration c = 0 \<or> now w < mtime (meta_inode w prefix) + expiration c))"

text \<open>
  What the comment on \<^verbatim>\<open>Loader\<close> asks of a loader where it matters below:
  \<^verbatim>\<open>meta\<close> is nil when the cache has no copy of the file, and
  \<^verbatim>\<open>cacheValid == true\<close> says that the cached copy is still valid; so a loader that
  is given nil metadata has no copy to declare valid, and fetches.
\<close>

definition conforming :: "'s Cache \<Rightarrow> bool" where
  "conforming c = (\<forall>s path. \<not> cacheValid (fst (loader c s path [])))"

subsection \<open>The test's loader and a concrete cache\<close>

text \<open>
  \<^verbatim>\<open>loadHello\<close> of the package's test, with \<^verbatim>\<open>strconv.Atoi\<close> and
  \<^verbatim>\<open>fmt.Sprint\<close> on decimal numbers.
\<close>

definition digit_of :: "char \<Rightarrow> nat option" where
  "digit_of c =
     map_of [(CHR ''0'', 0), (CHR ''1'', 1), (CHR ''2'', 2), (CHR ''3'', 3), (CHR ''4'', 4),
             (CHR ''5'', 5), (CHR ''6'', 6), (CHR ''7'', 7), (CHR ''8'', 8), (CHR ''9'', 9)] c"

definition digit_char :: "nat \<Rightarrow> char" where
  "digit_char n = ''0123456789'' ! n"

fun parse_nat :: "string \<Rightarrow> nat \<Rightarrow> nat option" where
  "parse_nat [] acc = Some acc"
| "parse_nat (c # cs) acc =
     (case digit_of c of None \<Rightarrow> None | Some d \<Rightarrow> parse_nat cs (10 * acc + d))"

definition strconv_Atoi :: "string \<Rightarrow> int \<times> error option" where
  "strconv_Atoi s =
     (case s of
        [] \<Rightarrow> (0, Some SyntaxError)
      | c # cs \<Rightarrow>
          if c = CHR ''-'' \<or> c = CHR ''+'' then
            (if cs = [] then (0, Some SyntaxError)
             else case parse_nat cs 0 of
                    None \<Rightarrow> (0, Some SyntaxError)
                  | Some n \<Rightarrow> (if c = CHR ''-'' then - int n else int n, None))
          else
            (case parse_nat s 0 of None \<Rightarrow> (0, Some SyntaxError) | Some n \<Rightarrow> (int n, None)))"

function digits :: "nat \<Rightarrow> string" where
  "digits n =
     (if n < 10 then [digit_char n] else digits (n div 10) @ [digit_char (n mod 10)])"
  by pat_completeness auto
termination
  by (relation "measure id") auto

declare digits.simps [simp del]

definition fmt_Sprint :: "int \<Rightarrow> string" where
  "fmt_Sprint i = (if i < 0 then CHR ''-'' # digits (nat (- i)) else digits (nat i))"

definition loadHello :: "unit \<Rightarrow> string \<Rightarrow> bytes \<Rightarrow> load_result \<times> unit" where
  "loadHello s path meta =
     (let n = fst (strconv_Atoi meta) + 1 in
      (\<lparr>cacheValid = False, newMeta = fmt_Sprint n, lerr = None,
        written = ''hello, '' @ path @ '' #'' @ fmt_Sprint n @ [CHR 0x0A]\<rparr>, s))"

text \<open>
  The library parameters at the scenarios below: the path \<^verbatim>\<open>/file\<close> is clean
  already, its SHA-1 is the one given, and the metadata is written as four fields
  separated by commas (the scenarios' paths and tokens hold no comma).
\<close>

fun split_comma :: "string \<Rightarrow> string list" where
  "split_comma [] = [[]]"
| "split_comma (c # cs) =
     (if c = CHR '','' then [] # split_comma cs
      else (case split_comma cs of [] \<Rightarrow> [[c]] | x # xs \<Rightarrow> (c # x) # xs))"

definition test_Marshal :: "metaDisk \<Rightarrow> error + bytes" where
  "test_Marshal m =
     Inr (Path m @ '','' @ fmt_Sprint (CreateTime m) @ '','' @ fmt_Sprint (RefreshTime m)
          @ '','' @ Load m)"

definition test_Unmarshal :: "bytes \<Rightarrow> error + metaDisk" where
  "test_Unmarshal js =
     (case split_comma js of
        [p, ct, rt, l] \<Rightarrow>
          (case (strconv_Atoi ct, strconv_Atoi rt) of
             ((a, None), (b, None)) \<Rightarrow>
               Inr \<lparr>Path = p, CreateTime = a, RefreshTime = b, Load = l\<rparr>
           | _ \<Rightarrow> Inl SyntaxError)
      | _ \<Rightarrow> Inl SyntaxError)"

definition test_lib :: stdlib where
  "test_lib =
     \<lparr>path_Clean = (\<lambda>p. p),
      sha1_hex = (\<lambda>p. ''0a63e1f569becd95cebe053cc9f7611769d58f5b''),
      json_Marshal = test_Marshal,
      json_Unmarshal = test_Unmarshal\<rparr>"

definition test_cache :: "unit Cache" where
  "test_cache = New ''/c'' loadHello"

text \<open>
  \<^verbatim>\<open>readFile\<close> and \<^verbatim>\<open>TestBasic\<close> of the package's test. The test compares five
  reads with the strings it expects; \<open>TestBasic\<close> is the list of what the five reads
  return, 1000ns apart on a clock that starts at 1000.
\<close>

definition readFile ::
  "stdlib \<Rightarrow> unit Cache \<Rightarrow> unit world \<Rightarrow> string \<Rightarrow> (error + bytes) \<times> unit world" where
  "readFile lib c w name =
     (case Open lib c w name of
        (Inl err, w1) \<Rightarrow> (Inl err, w1)
      | (Inr f, w1) \<Rightarrow>
          (case ioutil_ReadAll w1 f of
             (data, Some err) \<Rightarrow> (Inl err, w1)
           | (data, None) \<Rightarrow> (Inr data, w1)))"

text \<open>
  A loader that fetches when it is given no metadata and otherwise answers
  ``not modified'' with a new token, and one that fails after a partial write.
\<close>

definition loadValid :: "unit \<Rightarrow> string \<Rightarrow> bytes \<Rightarrow> load_result \<times> unit" where
  "loadValid s path meta =
     (if meta = [] then (\<lparr>cacheValid = False, newMeta = ''v1'', lerr = None, written = ''new''\<rparr>, s)
      else (\<lparr>cacheValid = True, newMeta = ''v2'', lerr = None, written = []\<rparr>, s))"

definition loadFail :: "unit \<Rightarrow> string \<Rightarrow> bytes \<Rightarrow> load_result \<times> unit" where
  "loadFail s path meta =
     (\<lparr>cacheValid = False, newMeta = [], lerr = Some (LoadError ''unreachable''),
       written = ''part''\<rparr>, s)"

text \<open>The entry group of \<^verbatim>\<open>/file\<close> in the cache directory \<^verbatim>\<open>/c\<close>.\<close>

definition test_prefix :: string where
  "test_prefix = ''/c/0a6/3e1f569becd95cebe053cc9f7611769d58f5b''"

text \<open>
  A cache directory holding the given files of that entry group (by suffix), no
  descriptor open, at time \<open>t\<close>.
\<close>

definition entry_world :: "(string \<times> inode) list \<Rightarrow> int \<Rightarrow> unit world" where
  "entry_world files t =
     \<lparr>names = map_of (map (\<lambda>(sfx, f). (test_prefix @ sfx, f)) files),
      fds = Map.empty, next_fd = 3, now = t, remote = (), calls = []\<rparr>"

definition empty_world :: "int \<Rightarrow> unit world" where
  "empty_world t = entry_world [] t"

text \<open>
  At time 1000: an entry fetched at time 5 with token \<^verbatim>\<open>v1\<close>; an entry with
  metadata (token \<^verbatim>\<open>5\<close>) and no \<^verbatim>\<open>.data\<close>; an entry whose \<^verbatim>\<open>.data\<close>
  cannot be read past its second byte; an entry with all four files; an entry whose
  \<^verbatim>\<open>.meta\<close> does not parse.
\<close>

definition stale_world :: "unit world" where
  "stale_world =
     entry_world [(''.meta'', \<lparr>content = ''/file,5,5,v1'', mtime = 5, rfault = None\<rparr>),
                  (''.data'', \<lparr>content = ''old'', mtime = 5, rfault = None\<rparr>)] 1000"

definition no_data_world :: "unit world" where
  "no_data_world =
     entry_world [(''.meta'', \<lparr>content = ''/file,5,5,5'', mtime = 5, rfault = None\<rparr>)] 1000"

definition faulty_world :: "unit world" where
  "faulty_world =
     entry_world [(''.meta'', \<lparr>content = ''/file,5,5,v1'', mtime = 5, rfault = None\<rparr>),
                  (''.data'', \<lparr>content = ''old'', mtime = 5, rfault = Some (2, ''disk'')\<rparr>)] 1000"

definition full_world :: "unit world" where
  "full_world =
     entry_world [(''.meta'', \<lparr>content = ''/file,5,5,v1'', mtime = 5, rfault = None\<rparr>),
                  (''.data'', \<lparr>content = ''old'', mtime = 5, rfault = None\<rparr>),
                  (''.used'', \<lparr>content = [CHR 0x0A], mtime = 5, rfault = None\<rparr>),
                  (''.next'', \<lparr>content = ''par'', mtime = 7, rfault = None\<rparr>)] 1000"

definition corrupt_world :: "unit world" where
  "corrupt_world =
     entry_world [(''.meta'', \<lparr>content = ''garbage'', mtime = 5, rfault = None\<rparr>)] 1000"

text \<open>A cache that expires entries after 1ns, over \<open>loadValid\<close>; one over \<open>loadFail\<close>.\<close>

definition valid_cache :: "unit Cache" where
  "valid_cache = SetExpiration (New ''/c'' loadValid) 1"

definition fail_cache :: "unit Cache" where
  "fail_cache = New ''/c'' loadFail"

definition TestBasic :: "(error + bytes) list" where
  "TestBasic =
     (let c = test_cache;
          (data, w1) = readFile test_lib c (empty_world 1000) ''file'';
          (data2, w2) = readFile test_lib c (w1\<lparr>now := 2000\<rparr>) ''file'';
          c = SetExpiration c 1;
          (data3, w3) = readFile test_lib c (w2\<lparr>now := 3000\<rparr>) ''file'';
          (data4, w4) = readFile test_lib c (w3\<lparr>now := 4000\<rparr>) ''file'';
          c = SetExpiration c 0;
          (data5, w5) = readFile test_lib c (w4\<lparr>now := 5000\<rparr>) ''file''
      in [data, data2, data3, data4, data5])"

subsection \<open>What each file system call returns and changes\<close>

text \<open>
  One group of equations per call: its result, and each component of the world after it.
\<close>

lemma os_Open_simps [simp]:
  "fst (os_Open w n) = (case names w n of None \<Rightarrow> Inl ENOENT | Some f \<Rightarrow> Inr (next_fd w))"
  "names (snd (os_Open w n)) = names w"
  "calls (snd (os_Open w n)) = calls w"
  "now (snd (os_Open w n)) = now w"
  "remote (snd (os_Open w n)) = remote w"
  "next_fd (snd (os_Open w n)) = (case names w n of None \<Rightarrow> next_fd w | Some f \<Rightarrow> Suc (next_fd w))"
  "fds (snd (os_Open w n)) =
     (case names w n of None \<Rightarrow> fds w
      | Some f \<Rightarrow> (fds w)(next_fd w \<mapsto> \<lparr>fd_link = Linked n, fd_locked = False\<rparr>))"
  by (simp_all add: os_Open_def open_fd_def split: option.split)

lemma os_OpenFile_RDWR_simps [simp]:
  "fst (os_OpenFile_RDWR w n) = (case names w n of None \<Rightarrow> Inl ENOENT | Some f \<Rightarrow> Inr (next_fd w))"
  "names (snd (os_OpenFile_RDWR w n)) = names w"
  "calls (snd (os_OpenFile_RDWR w n)) = calls w"
  "now (snd (os_OpenFile_RDWR w n)) = now w"
  "remote (snd (os_OpenFile_RDWR w n)) = remote w"
  "next_fd (snd (os_OpenFile_RDWR w n)) = (case names w n of None \<Rightarrow> next_fd w | Some f \<Rightarrow> Suc (next_fd w))"
  "fds (snd (os_OpenFile_RDWR w n)) =
     (case names w n of None \<Rightarrow> fds w
      | Some f \<Rightarrow> (fds w)(next_fd w \<mapsto> \<lparr>fd_link = Linked n, fd_locked = False\<rparr>))"
  by (simp_all add: os_OpenFile_RDWR_def open_fd_def split: option.split)

lemma os_OpenFile_CREATE_EXCL_simps [simp]:
  "fst (os_OpenFile_CREATE_EXCL w n) = (case names w n of None \<Rightarrow> Inr (next_fd w) | Some f \<Rightarrow> Inl EEXIST)"
  "names (snd (os_OpenFile_CREATE_EXCL w n)) =
     (case names w n of None \<Rightarrow> (names w)(n \<mapsto> \<lparr>content = [], mtime = now w, rfault = None\<rparr>)
      | Some f \<Rightarrow> names w)"
  "calls (snd (os_OpenFile_CREATE_EXCL w n)) = calls w"
  "now (snd (os_OpenFile_CREATE_EXCL w n)) = now w"
  "remote (snd (os_OpenFile_CREATE_EXCL w n)) = remote w"
  "next_fd (snd (os_OpenFile_CREATE_EXCL w n)) = (case names w n of None \<Rightarrow> Suc (next_fd w) | Some f \<Rightarrow> next_fd w)"
  "fds (snd (os_OpenFile_CREATE_EXCL w n)) =
     (case names w n of None \<Rightarrow> (fds w)(next_fd w \<mapsto> \<lparr>fd_link = Linked n, fd_locked = False\<rparr>)
      | Some f \<Rightarrow> fds w)"
  by (simp_all add: os_OpenFile_CREATE_EXCL_def open_fd_def split: option.split)

lemma File_Close_simps [simp]:
  "fst (File_Close w f) = (case fds w f of None \<Rightarrow> Some EBADF | Some d \<Rightarrow> None)"
  "names (snd (File_Close w f)) = names w"
  "calls (snd (File_Close w f)) = calls w"
  "now (snd (File_Close w f)) = now w"
  "remote (snd (File_Close w f)) = remote w"
  "next_fd (snd (File_Close w f)) = next_fd w"
  "fds (snd (File_Close w f)) = (fds w)(f := None)"
  by (auto simp: File_Close_def split: option.split)

lemma os_Remove_simps [simp]:
  "fst (os_Remove w n) = (case names w n of None \<Rightarrow> Some ENOENT | Some f \<Rightarrow> None)"
  "names (snd (os_Remove w n)) = (names w)(n := None)"
  "calls (snd (os_Remove w n)) = calls w"
  "now (snd (os_Remove w n)) = now w"
  "remote (snd (os_Remove w n)) = remote w"
  "next_fd (snd (os_Remove w n)) = next_fd w"
  "fds (snd (os_Remove w n)) k =
     (case names w n of None \<Rightarrow> fds w k | Some f \<Rightarrow> map_option (detach n f) (fds w k))"
  by (auto simp: os_Remove_def split: option.split)

lemma os_Rename_simps [simp]:
  "fst (os_Rename w old new) = (case names w old of None \<Rightarrow> Some ENOENT | Some f \<Rightarrow> None)"
  "names (snd (os_Rename w old new)) =
     (case names w old of None \<Rightarrow> names w | Some f \<Rightarrow> (names w)(old := None, new \<mapsto> f))"
  "calls (snd (os_Rename w old new)) = calls w"
  "now (snd (os_Rename w old new)) = now w"
  "remote (snd (os_Rename w old new)) = remote w"
  "next_fd (snd (os_Rename w old new)) = next_fd w"
  by (auto simp: os_Rename_def split: option.split)

lemma ioutil_WriteFile_simps [simp]:
  "fst (ioutil_WriteFile w n bs) = None"
  "names (snd (ioutil_WriteFile w n bs)) =
     (names w)(n \<mapsto> (case names w n of None \<Rightarrow> \<lparr>content = bs, mtime = now w, rfault = None\<rparr>
                       | Some f \<Rightarrow> f\<lparr>content := bs, mtime := now w\<rparr>))"
  "calls (snd (ioutil_WriteFile w n bs)) = calls w"
  "now (snd (ioutil_WriteFile w n bs)) = now w"
  "remote (snd (ioutil_WriteFile w n bs)) = remote w"
  "next_fd (snd (ioutil_WriteFile w n bs)) = next_fd w"
  "fds (snd (ioutil_WriteFile w n bs)) = fds w"
  by (simp_all add: ioutil_WriteFile_def)

lemma os_Chtimes_simps [simp]:
  "fst (os_Chtimes w n a t) = (case names w n of None \<Rightarrow> Some ENOENT | Some f \<Rightarrow> None)"
  "names (snd (os_Chtimes w n a t)) =
     (case names w n of None \<Rightarrow> names w | Some f \<Rightarrow> (names w)(n \<mapsto> f\<lparr>mtime := t\<rparr>))"
  "calls (snd (os_Chtimes w n a t)) = calls w"
  "now (snd (os_Chtimes w n a t)) = now w"
  "remote (snd (os_Chtimes w n a t)) = remote w"
  "next_fd (snd (os_Chtimes w n a t)) = next_fd w"
  "fds (snd (os_Chtimes w n a t)) = fds w"
  by (simp_all add: os_Chtimes_def split: option.split)

lemma syscall_Flock_simps [simp]:
  "fst (syscall_Flock w f) = (case fds w f of None \<Rightarrow> Some EBADF | Some d \<Rightarrow> None)"
  "names (snd (syscall_Flock w f)) = names w"
  "calls (snd (syscall_Flock w f)) = calls w"
  "now (snd (syscall_Flock w f)) = now w"
  "remote (snd (syscall_Flock w f)) = remote w"
  "next_fd (snd (syscall_Flock w f)) = next_fd w"
  "fds (snd (syscall_Flock w f)) =
     (case fds w f of None \<Rightarrow> fds w | Some d \<Rightarrow> (fds w)(f \<mapsto> d\<lparr>fd_locked := True\<rparr>))"
  by (simp_all add: syscall_Flock_def split: option.split)

lemma metaLock_simps [simp]:
  "fst (metaLock w prefix) =
     (case names w (prefix @ ''.meta'') of None \<Rightarrow> Inl ENOENT | Some f \<Rightarrow> Inr (next_fd w))"
  "names (snd (metaLock w prefix)) = names w"
  "calls (snd (metaLock w prefix)) = calls w"
  "now (snd (metaLock w prefix)) = now w"
  "remote (snd (metaLock w prefix)) = remote w"
  "next_fd (snd (metaLock w prefix)) =
     (case names w (prefix @ ''.meta'') of None \<Rightarrow> next_fd w | Some f \<Rightarrow> Suc (next_fd w))"
  "fds (snd (metaLock w prefix)) =
     (case names w (prefix @ ''.meta'') of None \<Rightarrow> fds w
      | Some f \<Rightarrow> (fds w)(next_fd w \<mapsto> \<lparr>fd_link = Linked (prefix @ ''.meta''), fd_locked = True\<rparr>))"
  by (simp_all add: metaLock_def Let_def split_beta split: option.split sum.split)

lemma Open_lock_simps [simp]:
  "fst (Open_lock w prefix) =
     Inr (case names w (prefix @ ''.meta'') of None \<Rightarrow> Suc (next_fd w) | Some f \<Rightarrow> next_fd w)"
  "names (snd (Open_lock w prefix)) =
     (case names w (prefix @ ''.meta'') of
        None \<Rightarrow> (names w)(prefix @ ''.meta'' \<mapsto> \<lparr>content = [], mtime = now w, rfault = None\<rparr>)
      | Some f \<Rightarrow> names w)"
  "calls (snd (Open_lock w prefix)) = calls w"
  "now (snd (Open_lock w prefix)) = now w"
  "remote (snd (Open_lock w prefix)) = remote w"
  "next_fd (snd (Open_lock w prefix)) =
     (case names w (prefix @ ''.meta'') of None \<Rightarrow> Suc (Suc (next_fd w)) | Some f \<Rightarrow> Suc (next_fd w))"
  "fds (snd (Open_lock w prefix)) =
     (case names w (prefix @ ''.meta'') of
        None \<Rightarrow> ((fds w)(next_fd w := None))
                  (Suc (next_fd w) \<mapsto> \<lparr>fd_link = Linked (prefix @ ''.meta''), fd_locked = True\<rparr>)
      | Some f \<Rightarrow> (fds w)(next_fd w \<mapsto> \<lparr>fd_link = Linked (prefix @ ''.meta''), fd_locked = True\<rparr>))"
  by (simp_all add: Open_lock_def Let_def split_beta split: option.split sum.split)

lemma call_Load_Linked:
  assumes "fds w fd = Some d" "fd_link d = Linked n" "names w n = Some f"
  shows "fst (call_Load c w path fd tok) = fst (loader c (remote w) path tok)"
    and "names (snd (call_Load c w path fd tok)) =
           (names w)(n \<mapsto> f\<lparr>content := written (fst (loader c (remote w) path tok)), mtime := now w\<rparr>)"
    and "calls (snd (call_Load c w path fd tok)) =
           calls w @ [(path, tok, fst (loader c (remote w) path tok))]"
    and "now (snd (call_Load c w path fd tok)) = now w"
    and "remote (snd (call_Load c w path fd tok)) = snd (loader c (remote w) path tok)"
    and "next_fd (snd (call_Load c w path fd tok)) = next_fd w"
    and "fds (snd (call_Load c w path fd tok)) = fds w"
  using assms by (simp_all add: call_Load_def File_Write_def Let_def split_beta)


lemma File_Stat_Linked:
  "fds w fd = Some d \<Longrightarrow> fd_link d = Linked n \<Longrightarrow> names w n = Some f \<Longrightarrow> File_Stat w fd = Inr f"
  by (simp add: File_Stat_def fd_file_def)

lemma ioutil_ReadAll_Linked:
  "fds w fd = Some d \<Longrightarrow> fd_link d = Linked n \<Longrightarrow> names w n = Some f \<Longrightarrow>
   ioutil_ReadAll w fd =
     (case rfault f of None \<Rightarrow> (content f, None) | Some (k, msg) \<Rightarrow> (take k (content f), Some (EIO msg)))"
  by (simp add: ioutil_ReadAll_def fd_file_def)

lemma Open_read_meta_Linked:
  assumes "fds w fd = Some d" "fd_link d = Linked n" "names w n = Some f"
  shows "Open_read_meta lib w fd =
     (case rfault f of
        Some (k, msg) \<Rightarrow> Inl (Errorf ''reading metadata file: '' (EIO msg))
      | None \<Rightarrow>
          (case decode_meta lib (content f) of
             Inl err \<Rightarrow> Inl (Errorf ''reading metadata file: '' err)
           | Inr meta \<Rightarrow> Inr meta))"
  using assms
  by (simp add: Open_read_meta_def ioutil_ReadAll_Linked split: option.split prod.split)

lemma Open_create_next_simps [simp]:
  "fst (Open_create_next w prefix) = Inr (next_fd w)"
  "names (snd (Open_create_next w prefix)) =
     (names w)(prefix @ ''.next'' \<mapsto> \<lparr>content = [], mtime = now w, rfault = None\<rparr>)"
  "calls (snd (Open_create_next w prefix)) = calls w"
  "now (snd (Open_create_next w prefix)) = now w"
  "remote (snd (Open_create_next w prefix)) = remote w"
  "next_fd (snd (Open_create_next w prefix)) = Suc (next_fd w)"
  "fds (snd (Open_create_next w prefix)) (next_fd w) =
     Some \<lparr>fd_link = Linked (prefix @ ''.next''), fd_locked = False\<rparr>"
  by (simp_all add: Open_create_next_def split_beta split: option.split sum.split)

lemma Open_install_valid:
  "fst (Open_install lib c w path prefix metaFile meta nxt True tok) =
     (case json_Marshal lib (meta\<lparr>RefreshTime := now w, Load := tok, Path := path\<rparr>) of
        Inl err \<Rightarrow> Inl (Errorf ''preparing meta file: '' err)
      | Inr js \<Rightarrow>
          (case names w (prefix @ ''.data'') of None \<Rightarrow> Inl ENOENT | Some f \<Rightarrow> Inr (next_fd w)))"
  "names (snd (Open_install lib c w path prefix metaFile meta nxt True tok)) =
     (case json_Marshal lib (meta\<lparr>RefreshTime := now w, Load := tok, Path := path\<rparr>) of
        Inl err \<Rightarrow> (names w)(prefix @ ''.next'' := None)
      | Inr js \<Rightarrow>
          (names w)(prefix @ ''.next'' := None,
             prefix @ ''.meta'' \<mapsto>
               (case names w (prefix @ ''.meta'') of
                  None \<Rightarrow> \<lparr>content = js, mtime = now w, rfault = None\<rparr>
                | Some f \<Rightarrow> f\<lparr>content := js, mtime := now w\<rparr>)))"
  "calls (snd (Open_install lib c w path prefix metaFile meta nxt True tok)) = calls w"
  by (simp_all add: Open_install_def Let_def split_beta
        split: sum.split option.split cong: option.case_cong)

lemma Open_install_valid_handle:
  assumes "json_Marshal lib (meta\<lparr>RefreshTime := now w, Load := tok, Path := path\<rparr>) = Inr js"
    and "names w (prefix @ ''.data'') = Some fD" and "metaFile \<noteq> next_fd w"
  shows "fds (snd (Open_install lib c w path prefix metaFile meta nxt True tok)) (next_fd w) =
           Some \<lparr>fd_link = Linked (prefix @ ''.data''), fd_locked = False\<rparr>"
  using assms
  by (simp add: Open_install_def Let_def split_beta)

lemma Open_install_new:
  assumes nxt: "fds w nxt = Some dn" "fd_link dn = Linked (prefix @ ''.next'')"
    and N: "names w (prefix @ ''.next'') = Some fN"
  shows "fst (Open_install lib c w path prefix metaFile meta nxt False tok) =
     (case json_Marshal lib \<lparr>Path = path, CreateTime = now w, RefreshTime = now w, Load = tok\<rparr> of
        Inl err \<Rightarrow> Inl (Errorf ''preparing meta file: '' err)
      | Inr js \<Rightarrow> Inr (next_fd w))"
    and "names (snd (Open_install lib c w path prefix metaFile meta nxt False tok)) =
     (case json_Marshal lib \<lparr>Path = path, CreateTime = now w, RefreshTime = now w, Load = tok\<rparr> of
        Inl err \<Rightarrow> (names w)(prefix @ ''.next'' := None, prefix @ ''.data'' \<mapsto> fN)
      | Inr js \<Rightarrow>
          (names w)(prefix @ ''.next'' := None, prefix @ ''.data'' \<mapsto> fN,
             prefix @ ''.meta'' \<mapsto>
               (case names w (prefix @ ''.meta'') of
                  None \<Rightarrow> \<lparr>content = js, mtime = now w, rfault = None\<rparr>
                | Some f \<Rightarrow> f\<lparr>content := js, mtime := now w\<rparr>)))"
    and "calls (snd (Open_install lib c w path prefix metaFile meta nxt False tok)) = calls w"
proof -
  have st: "File_Stat w nxt = Inr fN"
    using nxt N by (rule File_Stat_Linked)
  obtain p ct rt l where meta: "meta = \<lparr>Path = p, CreateTime = ct, RefreshTime = rt, Load = l\<rparr>"
    by (cases meta) auto
  note defs = Open_install_def checkDataLimit_def Let_def split_beta meta
  show "fst (Open_install lib c w path prefix metaFile meta nxt False tok) =
     (case json_Marshal lib \<lparr>Path = path, CreateTime = now w, RefreshTime = now w, Load = tok\<rparr> of
        Inl err \<Rightarrow> Inl (Errorf ''preparing meta file: '' err)
      | Inr js \<Rightarrow> Inr (next_fd w))"
    using nxt N st by (simp add: defs split: sum.split cong: option.case_cong)
  show "names (snd (Open_install lib c w path prefix metaFile meta nxt False tok)) =
     (case json_Marshal lib \<lparr>Path = path, CreateTime = now w, RefreshTime = now w, Load = tok\<rparr> of
        Inl err \<Rightarrow> (names w)(prefix @ ''.next'' := None, prefix @ ''.data'' \<mapsto> fN)
      | Inr js \<Rightarrow>
          (names w)(prefix @ ''.next'' := None, prefix @ ''.data'' \<mapsto> fN,
             prefix @ ''.meta'' \<mapsto>
               (case names w (prefix @ ''.meta'') of
                  None \<Rightarrow> \<lparr>content = js, mtime = now w, rfault = None\<rparr>
                | Some f \<Rightarrow> f\<lparr>content := js, mtime := now w\<rparr>)))"
    using nxt N st by (simp add: defs split: sum.split cong: option.case_cong)
  show "calls (snd (Open_install lib c w path prefix metaFile meta nxt False tok)) = calls w"
    using nxt N st by (simp add: defs split: sum.split cong: option.case_cong)
qed

lemma Open_install_new_handle:
  assumes nxt: "fds w nxt = Some dn" "fd_link dn = Linked (prefix @ ''.next'')"
    and N: "names w (prefix @ ''.next'') = Some fN"
    and js: "json_Marshal lib \<lparr>Path = path, CreateTime = now w, RefreshTime = now w, Load = tok\<rparr> = Inr js"
    and "metaFile \<noteq> next_fd w"
  shows "fds (snd (Open_install lib c w path prefix metaFile meta nxt False tok)) (next_fd w) =
           Some \<lparr>fd_link = Linked (prefix @ ''.data''), fd_locked = False\<rparr>"
proof -
  have st: "File_Stat w nxt = Inr fN"
    using nxt N by (rule File_Stat_Linked)
  obtain p ct rt l where meta: "meta = \<lparr>Path = p, CreateTime = ct, RefreshTime = rt, Load = l\<rparr>"
    by (cases meta) auto
  show ?thesis
    using assms st by (simp add: Open_install_def checkDataLimit_def Let_def split_beta meta)
qed

lemma Open_refresh_unreadable:
  assumes "fds w metaFile = Some dm" "fd_link dm = Linked (prefix @ ''.meta'')"
    and "names w (prefix @ ''.meta'') = Some fi"
    and "rfault fi = Some (k, msg)"
  shows "Open_refresh lib c w path prefix metaFile errData =
           (Inl (Errorf ''reading metadata file: '' (EIO msg)), w)"
  using assms by (simp add: Open_refresh_def Open_read_meta_Linked)

lemma Open_refresh_corrupt:
  assumes "fds w metaFile = Some dm" "fd_link dm = Linked (prefix @ ''.meta'')"
    and "names w (prefix @ ''.meta'') = Some fi"
    and "rfault fi = None" "decode_meta lib (content fi) = Inl e"
  shows "Open_refresh lib c w path prefix metaFile errData =
           (Inl (Errorf ''reading metadata file: '' e), w)"
  using assms by (simp add: Open_refresh_def Open_read_meta_Linked)

lemma Open_refresh_eq:
  assumes mf: "fds w metaFile = Some dm" "fd_link dm = Linked (prefix @ ''.meta'')"
    and M: "names w (prefix @ ''.meta'') = Some fi"
    and rd: "rfault fi = None" "decode_meta lib (content fi) = Inr meta0"
    and ed: "errData = (names w (prefix @ ''.data'') = None)"
    and tok: "tok = (if errData then [] else Load meta0)"
    and r: "r = fst (loader c (remote w) path tok)"
  shows "\<exists>w4.
           Open_refresh lib c w path prefix metaFile errData =
             (case lerr r of
                Some err \<Rightarrow> (Inl err, snd (File_Close w4 (next_fd w)))
              | None \<Rightarrow> Open_install lib c w4 path prefix metaFile (meta0\<lparr>Load := tok\<rparr>)
                          (next_fd w) (cacheValid r) (newMeta r)) \<and>
           names w4 = (names w)(prefix @ ''.next'' \<mapsto>
                        \<lparr>content = written r, mtime = now w, rfault = None\<rparr>) \<and>
           calls w4 = calls w @ [(path, tok, r)] \<and>
           now w4 = now w \<and>
           next_fd w4 = Suc (next_fd w) \<and>
           fds w4 (next_fd w) = Some \<lparr>fd_link = Linked (prefix @ ''.next''), fd_locked = False\<rparr>"
proof -
  define w1 where "w1 = (if errData then snd (os_Remove w (prefix @ ''.data'')) else w)"
  define meta where "meta = (if errData then meta0\<lparr>Load := []\<rparr> else meta0)"
  define w3 where "w3 = snd (Open_create_next w1 prefix)"
  define w4 where "w4 = snd (call_Load c w3 path (next_fd w) tok)"
  have w1: "names w1 = names w" "calls w1 = calls w" "now w1 = now w" "remote w1 = remote w"
    "next_fd w1 = next_fd w"
    using ed by (auto simp: w1_def)
  have nxt3: "fds w3 (next_fd w) = Some \<lparr>fd_link = Linked (prefix @ ''.next''), fd_locked = False\<rparr>"
    using w1(5) Open_create_next_simps(7) [of w1 prefix] by (simp add: w3_def)
  have n3: "names w3 (prefix @ ''.next'') = Some \<lparr>content = [], mtime = now w, rfault = None\<rparr>"
    by (simp add: w3_def w1)
  have rem3: "remote w3 = remote w" "calls w3 = calls w" "now w3 = now w" "next_fd w3 = Suc (next_fd w)"
    by (simp_all add: w3_def w1)
  note ld = call_Load_Linked [OF nxt3 _ n3, of c path tok, simplified, folded w4_def]
  have ltok: "Load meta = tok"
    by (simp add: meta_def tok)
  have fstl: "fst (call_Load c w3 path (next_fd w) tok) = r"
    using ld(1) by (simp add: rem3 r)
  have rm: "Open_read_meta lib w metaFile = Inr meta0"
    using mf M rd by (simp add: Open_read_meta_Linked)
  have eq: "Open_refresh lib c w path prefix metaFile errData =
             (case lerr r of
                Some err \<Rightarrow> (Inl err, snd (File_Close w4 (next_fd w)))
              | None \<Rightarrow> Open_install lib c w4 path prefix metaFile meta (next_fd w)
                          (cacheValid r) (newMeta r))"
  proof (cases errData)
    case True
    then have "w1 = snd (os_Remove w (prefix @ ''.data''))" "meta = meta0\<lparr>Load := []\<rparr>" "tok = []"
      by (simp_all add: w1_def meta_def tok)
    then show ?thesis
      using True rm fstl
      by (simp add: Open_refresh_def Let_def split_beta w4_def w3_def cong: option.case_cong)
  next
    case False
    then have "w1 = w" "meta = meta0" "tok = Load meta0"
      by (simp_all add: w1_def meta_def tok)
    then show ?thesis
      using False rm fstl
      by (simp add: Open_refresh_def Let_def split_beta w4_def w3_def cong: option.case_cong)
  qed
  have "meta = meta0\<lparr>Load := tok\<rparr>"
    by (simp add: meta_def tok)
  moreover have "names w4 = (names w)(prefix @ ''.next'' \<mapsto>
                        \<lparr>content = written r, mtime = now w, rfault = None\<rparr>)"
    using ld(2) by (simp add: w3_def w1 rem3 r)
  moreover have "calls w4 = calls w @ [(path, tok, r)]"
    using ld(3) by (simp add: rem3 r)
  moreover have "now w4 = now w" "next_fd w4 = Suc (next_fd w)"
    using ld(4,6) by (simp_all add: rem3)
  moreover have "fds w4 (next_fd w) = Some \<lparr>fd_link = Linked (prefix @ ''.next''), fd_locked = False\<rparr>"
    using ld(7) nxt3 by simp
  ultimately show ?thesis
    using eq by blast
qed

lemma Open_hit:
  assumes loc: "locate lib c p = (cleaned, prefix)"
    and hit: "cache_hit c w prefix"
  shows "fst (Open lib c w p) =
           Inr (case names w (prefix @ ''.meta'') of None \<Rightarrow> Suc (Suc (next_fd w)) | Some f \<Rightarrow> next_fd w) \<and>
         names (snd (Open lib c w p)) = (names w)(prefix @ ''.meta'' \<mapsto> meta_inode w prefix) \<and>
         calls (snd (Open lib c w p)) = calls w \<and>
         fds (snd (Open lib c w p))
           (case names w (prefix @ ''.meta'') of None \<Rightarrow> Suc (Suc (next_fd w)) | Some f \<Rightarrow> next_fd w) =
         Some \<lparr>fd_link = Linked (prefix @ ''.data''), fd_locked = False\<rparr>"
proof -
  obtain fD where D: "names w (prefix @ ''.data'') = Some fD"
    using hit by (auto simp: cache_hit_def)
  have fresh: "expiration c = 0 \<or> now w < mtime (meta_inode w prefix) + expiration c"
    using hit by (simp add: cache_hit_def)
  show ?thesis
  proof (cases "names w (prefix @ ''.meta'')")
    case None
    then show ?thesis
      using loc D fresh
      by (simp add: Open_def Open_locked_def os_Stat_def File_Stat_def fd_file_def
          meta_inode_def Let_def split_beta)
  next
    case (Some fi)
    then show ?thesis
      using loc D fresh
      by (auto simp add: Open_def os_Stat_def meta_inode_def Let_def split_beta)
  qed
qed

lemma Open_miss:
  assumes loc: "locate lib c p = (cleaned, prefix)"
    and miss: "\<not> cache_hit c w prefix"
  shows "\<exists>wL metaFile.
           Open lib c w p =
             (fst (Open_refresh lib c wL cleaned prefix metaFile (names w (prefix @ ''.data'') = None)),
              snd (File_Close
                     (snd (Open_refresh lib c wL cleaned prefix metaFile
                             (names w (prefix @ ''.data'') = None))) metaFile)) \<and>
           names wL = (names w)(prefix @ ''.meta'' \<mapsto> meta_inode w prefix) \<and>
           calls wL = calls w \<and> now wL = now w \<and> remote wL = remote w \<and>
           fds wL metaFile = Some \<lparr>fd_link = Linked (prefix @ ''.meta''), fd_locked = True\<rparr> \<and>
           metaFile < next_fd wL"
proof (cases "names w (prefix @ ''.data'')")
  case None
  define wL where "wL = snd (os_Open (snd (Open_lock w prefix)) (prefix @ ''.data''))"
  define metaFile where
    "metaFile = (case names w (prefix @ ''.meta'') of None \<Rightarrow> Suc (next_fd w) | Some f \<Rightarrow> next_fd w)"
  have "Open lib c w p =
             (fst (Open_refresh lib c wL cleaned prefix metaFile (names w (prefix @ ''.data'') = None)),
              snd (File_Close
                     (snd (Open_refresh lib c wL cleaned prefix metaFile
                             (names w (prefix @ ''.data'') = None))) metaFile))"
    using loc None
    by (simp add: Open_def Open_locked_def os_Stat_def File_Stat_def fd_file_def
        Let_def split_beta wL_def metaFile_def split: option.split)
  moreover have "names wL = (names w)(prefix @ ''.meta'' \<mapsto> meta_inode w prefix)"
    "calls wL = calls w" "now wL = now w" "remote wL = remote w"
    "fds wL metaFile = Some \<lparr>fd_link = Linked (prefix @ ''.meta''), fd_locked = True\<rparr>"
    "metaFile < next_fd wL"
    using None
    by (auto simp: wL_def metaFile_def meta_inode_def split: option.split)
  ultimately show ?thesis by blast
next
  case (Some fD)
  define w0 where "w0 = snd (Open_lock w prefix)"
  define wL where "wL = snd (File_Close (snd (os_Open w0 (prefix @ ''.data''))) (next_fd w0))"
  define metaFile where
    "metaFile = (case names w (prefix @ ''.meta'') of None \<Rightarrow> Suc (next_fd w) | Some f \<Rightarrow> next_fd w)"
  have stale: "\<not> (expiration c = 0 \<or> now w < mtime (meta_inode w prefix) + expiration c)"
    using miss Some by (simp add: cache_hit_def)
  have D0: "names w0 (prefix @ ''.data'') = Some fD"
    using Some by (simp add: w0_def split: option.split)
  have "Open lib c w p =
             (fst (Open_refresh lib c wL cleaned prefix metaFile (names w (prefix @ ''.data'') = None)),
              snd (File_Close
                     (snd (Open_refresh lib c wL cleaned prefix metaFile
                             (names w (prefix @ ''.data'') = None))) metaFile))"
  proof (cases "names w (prefix @ ''.meta'')")
    case None
    then show ?thesis
      using loc Some stale
      by (simp add: Open_def Open_locked_def os_Stat_def File_Stat_def fd_file_def
          Let_def split_beta wL_def w0_def metaFile_def meta_inode_def)
  next
    case (Some fi)
    then show ?thesis
      using loc \<open>names w (prefix @ ''.data'') = Some fD\<close> stale
      by (simp add: Open_def Open_locked_def os_Stat_def File_Stat_def fd_file_def
          Let_def split_beta wL_def w0_def metaFile_def meta_inode_def)
  qed
  moreover have "names wL = (names w)(prefix @ ''.meta'' \<mapsto> meta_inode w prefix)"
    "calls wL = calls w" "now wL = now w" "remote wL = remote w"
    "fds wL metaFile = Some \<lparr>fd_link = Linked (prefix @ ''.meta''), fd_locked = True\<rparr>"
    "metaFile < next_fd wL"
    using Some D0
    by (auto simp: wL_def w0_def metaFile_def meta_inode_def split: option.split)
  ultimately show ?thesis by blast
qed

lemma Open_loads_core:
  assumes loc: "locate lib c p = (cleaned, prefix)"
    and miss: "\<not> cache_hit c w prefix"
    and rd: "rfault (meta_inode w prefix) = None"
      "decode_meta lib (content (meta_inode w prefix)) = Inr meta0"
    and tok: "tok = (if names w (prefix @ ''.data'') = None then [] else Load meta0)"
    and r: "r = fst (loader c (remote w) cleaned tok)"
  shows "\<exists>w4 metaFile nxt.
           Open lib c w p =
             (case lerr r of
                Some err \<Rightarrow> (Inl err, snd (File_Close (snd (File_Close w4 nxt)) metaFile))
              | None \<Rightarrow>
                  (fst (Open_install lib c w4 cleaned prefix metaFile (meta0\<lparr>Load := tok\<rparr>) nxt
                          (cacheValid r) (newMeta r)),
                   snd (File_Close
                          (snd (Open_install lib c w4 cleaned prefix metaFile
                                  (meta0\<lparr>Load := tok\<rparr>) nxt (cacheValid r) (newMeta r)))
                          metaFile))) \<and>
           names w4 = (names w)(prefix @ ''.meta'' \<mapsto> meta_inode w prefix,
                        prefix @ ''.next'' \<mapsto> \<lparr>content = written r, mtime = now w, rfault = None\<rparr>) \<and>
           calls w4 = calls w @ [(cleaned, tok, r)] \<and>
           now w4 = now w \<and>
           fds w4 nxt = Some \<lparr>fd_link = Linked (prefix @ ''.next''), fd_locked = False\<rparr> \<and>
           metaFile < next_fd w4"
proof -
  from Open_miss [OF loc miss]
  obtain wL metaFile where
    op: "Open lib c w p =
           (fst (Open_refresh lib c wL cleaned prefix metaFile (names w (prefix @ ''.data'') = None)),
            snd (File_Close
                   (snd (Open_refresh lib c wL cleaned prefix metaFile
                           (names w (prefix @ ''.data'') = None))) metaFile))"
    and wL: "names wL = (names w)(prefix @ ''.meta'' \<mapsto> meta_inode w prefix)"
      "calls wL = calls w" "now wL = now w" "remote wL = remote w"
    and mf: "fds wL metaFile = Some \<lparr>fd_link = Linked (prefix @ ''.meta''), fd_locked = True\<rparr>"
    and lt: "metaFile < next_fd wL"
    by blast
  have M: "names wL (prefix @ ''.meta'') = Some (meta_inode w prefix)"
    by (simp add: wL)
  have ed: "(names w (prefix @ ''.data'') = None) = (names wL (prefix @ ''.data'') = None)"
    by (simp add: wL)
  have r': "r = fst (loader c (remote wL) cleaned tok)"
    by (simp add: r wL)
  from Open_refresh_eq [OF mf _ M rd ed tok r']
  obtain w4 where
    rf: "Open_refresh lib c wL cleaned prefix metaFile (names w (prefix @ ''.data'') = None) =
           (case lerr r of
              Some err \<Rightarrow> (Inl err, snd (File_Close w4 (next_fd wL)))
            | None \<Rightarrow> Open_install lib c w4 cleaned prefix metaFile (meta0\<lparr>Load := tok\<rparr>)
                        (next_fd wL) (cacheValid r) (newMeta r))"
    and w4: "names w4 = (names wL)(prefix @ ''.next'' \<mapsto>
                          \<lparr>content = written r, mtime = now wL, rfault = None\<rparr>)"
      "calls w4 = calls wL @ [(cleaned, tok, r)]" "now w4 = now wL"
      "next_fd w4 = Suc (next_fd wL)"
      "fds w4 (next_fd wL) = Some \<lparr>fd_link = Linked (prefix @ ''.next''), fd_locked = False\<rparr>"
    by auto
  have "Open lib c w p =
             (case lerr r of
                Some err \<Rightarrow> (Inl err, snd (File_Close (snd (File_Close w4 (next_fd wL))) metaFile))
              | None \<Rightarrow>
                  (fst (Open_install lib c w4 cleaned prefix metaFile (meta0\<lparr>Load := tok\<rparr>)
                          (next_fd wL) (cacheValid r) (newMeta r)),
                   snd (File_Close
                          (snd (Open_install lib c w4 cleaned prefix metaFile
                                  (meta0\<lparr>Load := tok\<rparr>) (next_fd wL) (cacheValid r) (newMeta r)))
                          metaFile)))"
    by (simp add: op rf split: option.split)
  moreover have "names w4 = (names w)(prefix @ ''.meta'' \<mapsto> meta_inode w prefix,
                        prefix @ ''.next'' \<mapsto> \<lparr>content = written r, mtime = now w, rfault = None\<rparr>)"
    by (simp add: w4 wL)
  moreover have "calls w4 = calls w @ [(cleaned, tok, r)]" "now w4 = now w" "metaFile < next_fd w4"
    using lt by (simp_all add: w4 wL)
  ultimately show ?thesis
    using w4(5) by blast
qed

lemma Open_unreadable:
  assumes loc: "locate lib c p = (cleaned, prefix)"
    and miss: "\<not> cache_hit c w prefix"
    and rd: "rfault (meta_inode w prefix) = Some (k, msg)"
  shows "fst (Open lib c w p) = Inl (Errorf ''reading metadata file: '' (EIO msg)) \<and>
         names (snd (Open lib c w p)) = (names w)(prefix @ ''.meta'' \<mapsto> meta_inode w prefix) \<and>
         calls (snd (Open lib c w p)) = calls w"
proof -
  from Open_miss [OF loc miss]
  obtain wL metaFile where
    op: "Open lib c w p =
           (fst (Open_refresh lib c wL cleaned prefix metaFile (names w (prefix @ ''.data'') = None)),
            snd (File_Close
                   (snd (Open_refresh lib c wL cleaned prefix metaFile
                           (names w (prefix @ ''.data'') = None))) metaFile))"
    and wL: "names wL = (names w)(prefix @ ''.meta'' \<mapsto> meta_inode w prefix)"
      "calls wL = calls w"
    and mf: "fds wL metaFile = Some \<lparr>fd_link = Linked (prefix @ ''.meta''), fd_locked = True\<rparr>"
    by blast
  have M: "names wL (prefix @ ''.meta'') = Some (meta_inode w prefix)"
    by (simp add: wL)
  show ?thesis
    using Open_refresh_unreadable [OF mf _ M rd, where lib = lib and c = c and path = cleaned] by (simp add: op wL)
qed

lemma Open_corrupt:
  assumes loc: "locate lib c p = (cleaned, prefix)"
    and miss: "\<not> cache_hit c w prefix"
    and rd: "rfault (meta_inode w prefix) = None"
      "decode_meta lib (content (meta_inode w prefix)) = Inl e"
  shows "fst (Open lib c w p) = Inl (Errorf ''reading metadata file: '' e) \<and>
         names (snd (Open lib c w p)) = (names w)(prefix @ ''.meta'' \<mapsto> meta_inode w prefix) \<and>
         calls (snd (Open lib c w p)) = calls w"
proof -
  from Open_miss [OF loc miss]
  obtain wL metaFile where
    op: "Open lib c w p =
           (fst (Open_refresh lib c wL cleaned prefix metaFile (names w (prefix @ ''.data'') = None)),
            snd (File_Close
                   (snd (Open_refresh lib c wL cleaned prefix metaFile
                           (names w (prefix @ ''.data'') = None))) metaFile))"
    and wL: "names wL = (names w)(prefix @ ''.meta'' \<mapsto> meta_inode w prefix)"
      "calls wL = calls w"
    and mf: "fds wL metaFile = Some \<lparr>fd_link = Linked (prefix @ ''.meta''), fd_locked = True\<rparr>"
    by blast
  have M: "names wL (prefix @ ''.meta'') = Some (meta_inode w prefix)"
    by (simp add: wL)
  show ?thesis
    using Open_refresh_corrupt [OF mf _ M rd, where c = c and path = cleaned] by (simp add: op wL)
qed

lemma Open_loads_calls:
  assumes loc: "locate lib c p = (cleaned, prefix)"
    and miss: "\<not> cache_hit c w prefix"
    and rd: "rfault (meta_inode w prefix) = None"
      "decode_meta lib (content (meta_inode w prefix)) = Inr meta0"
    and tok: "tok = (if names w (prefix @ ''.data'') = None then [] else Load meta0)"
    and r: "r = fst (loader c (remote w) cleaned tok)"
  shows "calls (snd (Open lib c w p)) = calls w @ [(cleaned, tok, r)]"
proof -
  from Open_loads_core [OF loc miss rd tok r]
  obtain w4 metaFile nxt where
    op: "Open lib c w p =
             (case lerr r of
                Some err \<Rightarrow> (Inl err, snd (File_Close (snd (File_Close w4 nxt)) metaFile))
              | None \<Rightarrow>
                  (fst (Open_install lib c w4 cleaned prefix metaFile (meta0\<lparr>Load := tok\<rparr>) nxt
                          (cacheValid r) (newMeta r)),
                   snd (File_Close
                          (snd (Open_install lib c w4 cleaned prefix metaFile
                                  (meta0\<lparr>Load := tok\<rparr>) nxt (cacheValid r) (newMeta r)))
                          metaFile)))"
    and w4: "names w4 = (names w)(prefix @ ''.meta'' \<mapsto> meta_inode w prefix,
                        prefix @ ''.next'' \<mapsto> \<lparr>content = written r, mtime = now w, rfault = None\<rparr>)"
      "calls w4 = calls w @ [(cleaned, tok, r)]"
    and nxt: "fds w4 nxt = Some \<lparr>fd_link = Linked (prefix @ ''.next''), fd_locked = False\<rparr>"
    by blast
  have N: "names w4 (prefix @ ''.next'') = Some \<lparr>content = written r, mtime = now w, rfault = None\<rparr>"
    by (simp add: w4)
  show ?thesis
  proof (cases "lerr r")
    case (Some e)
    then show ?thesis by (simp add: op w4)
  next
    case None
    show ?thesis
    proof (cases "cacheValid r")
      case True
      then show ?thesis
        using None by (simp add: op w4 Open_install_valid)
    next
      case False
      then show ?thesis
        using None Open_install_new(3) [OF nxt _ N, where lib = lib and c = c and path = cleaned
            and metaFile = metaFile]
        by (simp add: op w4)
    qed
  qed
qed

lemma Open_loads_err:
  assumes loc: "locate lib c p = (cleaned, prefix)"
    and miss: "\<not> cache_hit c w prefix"
    and rd: "rfault (meta_inode w prefix) = None"
      "decode_meta lib (content (meta_inode w prefix)) = Inr meta0"
    and tok: "tok = (if names w (prefix @ ''.data'') = None then [] else Load meta0)"
    and r: "r = fst (loader c (remote w) cleaned tok)"
    and err: "lerr r = Some e"
  shows "fst (Open lib c w p) = Inl e \<and>
         names (snd (Open lib c w p)) =
           (names w)(prefix @ ''.meta'' \<mapsto> meta_inode w prefix,
              prefix @ ''.next'' \<mapsto> \<lparr>content = written r, mtime = now w, rfault = None\<rparr>)"
  using Open_loads_core [OF loc miss rd tok r] err by auto

lemma Open_loads_valid:
  assumes loc: "locate lib c p = (cleaned, prefix)"
    and miss: "\<not> cache_hit c w prefix"
    and rd: "rfault (meta_inode w prefix) = None"
      "decode_meta lib (content (meta_inode w prefix)) = Inr meta0"
    and tok: "tok = (if names w (prefix @ ''.data'') = None then [] else Load meta0)"
    and r: "r = fst (loader c (remote w) cleaned tok)"
    and ok: "lerr r = None" "cacheValid r"
    and js: "json_Marshal lib (meta0\<lparr>RefreshTime := now w, Load := newMeta r, Path := cleaned\<rparr>) = Inr js"
  shows "names (snd (Open lib c w p)) =
           (names w)(prefix @ ''.next'' := None,
              prefix @ ''.meta'' \<mapsto> (meta_inode w prefix)\<lparr>content := js, mtime := now w\<rparr>) \<and>
         (case names w (prefix @ ''.data'') of
            None \<Rightarrow> fst (Open lib c w p) = Inl ENOENT
          | Some fD \<Rightarrow>
              (\<exists>f. fst (Open lib c w p) = Inr f \<and>
                   fds (snd (Open lib c w p)) f =
                     Some \<lparr>fd_link = Linked (prefix @ ''.data''), fd_locked = False\<rparr>))"
proof -
  from Open_loads_core [OF loc miss rd tok r]
  obtain w4 metaFile nxt where
    op: "Open lib c w p =
             (case lerr r of
                Some err \<Rightarrow> (Inl err, snd (File_Close (snd (File_Close w4 nxt)) metaFile))
              | None \<Rightarrow>
                  (fst (Open_install lib c w4 cleaned prefix metaFile (meta0\<lparr>Load := tok\<rparr>) nxt
                          (cacheValid r) (newMeta r)),
                   snd (File_Close
                          (snd (Open_install lib c w4 cleaned prefix metaFile
                                  (meta0\<lparr>Load := tok\<rparr>) nxt (cacheValid r) (newMeta r)))
                          metaFile)))"
    and w4: "names w4 = (names w)(prefix @ ''.meta'' \<mapsto> meta_inode w prefix,
                        prefix @ ''.next'' \<mapsto> \<lparr>content = written r, mtime = now w, rfault = None\<rparr>)"
      "now w4 = now w"
    and lt: "metaFile < next_fd w4"
    by blast
  have js': "json_Marshal lib ((meta0\<lparr>Load := tok\<rparr>)\<lparr>RefreshTime := now w4, Load := newMeta r, Path := cleaned\<rparr>) = Inr js"
    using js by (simp add: w4)
  have names: "names (snd (Open lib c w p)) =
           (names w)(prefix @ ''.next'' := None,
              prefix @ ''.meta'' \<mapsto> (meta_inode w prefix)\<lparr>content := js, mtime := now w\<rparr>)"
    using ok js' by (simp add: op Open_install_valid w4 fun_upd_twist)
  have res: "case names w (prefix @ ''.data'') of
            None \<Rightarrow> fst (Open lib c w p) = Inl ENOENT
          | Some fD \<Rightarrow>
              (\<exists>f. fst (Open lib c w p) = Inr f \<and>
                   fds (snd (Open lib c w p)) f =
                     Some \<lparr>fd_link = Linked (prefix @ ''.data''), fd_locked = False\<rparr>)"
  proof (cases "names w (prefix @ ''.data'')")
    case None
    then show ?thesis
      using ok js' by (simp add: op Open_install_valid w4)
  next
    case (Some fD)
    then have D4: "names w4 (prefix @ ''.data'') = Some fD"
      by (simp add: w4)
    have ne: "metaFile \<noteq> next_fd w4"
      using lt by simp
    show ?thesis
      using Some ok js' D4 ne Open_install_valid_handle [OF js' D4 ne, where c = c and nxt = nxt]
      by (simp add: op Open_install_valid)
  qed
  show ?thesis
    using names res by blast
qed

lemma Open_loads_new:
  assumes loc: "locate lib c p = (cleaned, prefix)"
    and miss: "\<not> cache_hit c w prefix"
    and rd: "rfault (meta_inode w prefix) = None"
      "decode_meta lib (content (meta_inode w prefix)) = Inr meta0"
    and tok: "tok = (if names w (prefix @ ''.data'') = None then [] else Load meta0)"
    and r: "r = fst (loader c (remote w) cleaned tok)"
    and ok: "lerr r = None" "\<not> cacheValid r"
    and js: "json_Marshal lib \<lparr>Path = cleaned, CreateTime = now w, RefreshTime = now w,
               Load = newMeta r\<rparr> = Inr js"
  shows "names (snd (Open lib c w p)) =
           (names w)(prefix @ ''.next'' := None,
              prefix @ ''.data'' \<mapsto> \<lparr>content = written r, mtime = now w, rfault = None\<rparr>,
              prefix @ ''.meta'' \<mapsto> (meta_inode w prefix)\<lparr>content := js, mtime := now w\<rparr>) \<and>
         (\<exists>f. fst (Open lib c w p) = Inr f \<and>
              fds (snd (Open lib c w p)) f =
                Some \<lparr>fd_link = Linked (prefix @ ''.data''), fd_locked = False\<rparr>)"
proof -
  from Open_loads_core [OF loc miss rd tok r]
  obtain w4 metaFile nxt where
    op: "Open lib c w p =
             (case lerr r of
                Some err \<Rightarrow> (Inl err, snd (File_Close (snd (File_Close w4 nxt)) metaFile))
              | None \<Rightarrow>
                  (fst (Open_install lib c w4 cleaned prefix metaFile (meta0\<lparr>Load := tok\<rparr>) nxt
                          (cacheValid r) (newMeta r)),
                   snd (File_Close
                          (snd (Open_install lib c w4 cleaned prefix metaFile
                                  (meta0\<lparr>Load := tok\<rparr>) nxt (cacheValid r) (newMeta r)))
                          metaFile)))"
    and w4: "names w4 = (names w)(prefix @ ''.meta'' \<mapsto> meta_inode w prefix,
                        prefix @ ''.next'' \<mapsto> \<lparr>content = written r, mtime = now w, rfault = None\<rparr>)"
      "now w4 = now w"
    and nxt: "fds w4 nxt = Some \<lparr>fd_link = Linked (prefix @ ''.next''), fd_locked = False\<rparr>"
    and lt: "metaFile < next_fd w4"
    by blast
  have N: "names w4 (prefix @ ''.next'') = Some \<lparr>content = written r, mtime = now w, rfault = None\<rparr>"
    by (simp add: w4)
  have js': "json_Marshal lib \<lparr>Path = cleaned, CreateTime = now w4, RefreshTime = now w4,
               Load = newMeta r\<rparr> = Inr js"
    using js by (simp add: w4)
  have ne: "metaFile \<noteq> next_fd w4"
    using lt by simp
  note inst = Open_install_new [OF nxt _ N, where lib = lib and path = cleaned and tok = "newMeta r"
      and c = c and metaFile = metaFile and meta = "meta0\<lparr>Load := tok\<rparr>", simplified]
  note hd = Open_install_new_handle [OF nxt _ N js' ne, where c = c
      and meta = "meta0\<lparr>Load := tok\<rparr>", simplified]
  have "names (snd (Open lib c w p)) =
           (names w)(prefix @ ''.next'' := None,
              prefix @ ''.data'' \<mapsto> \<lparr>content = written r, mtime = now w, rfault = None\<rparr>,
              prefix @ ''.meta'' \<mapsto> (meta_inode w prefix)\<lparr>content := js, mtime := now w\<rparr>)"
    using ok js' inst(2) by (simp add: op w4 fun_upd_twist)
  moreover have "fst (Open lib c w p) = Inr (next_fd w4)"
    using ok js' inst(1) by (simp add: op)
  moreover have "fds (snd (Open lib c w p)) (next_fd w4) =
                Some \<lparr>fd_link = Linked (prefix @ ''.data''), fd_locked = False\<rparr>"
    using ok hd ne by (simp add: op)
  ultimately show ?thesis by blast
qed

lemma ReadAll_data_handle:
  assumes "fds w f = Some \<lparr>fd_link = Linked n, fd_locked = False\<rparr>" "names w n = Some fi"
  shows "ioutil_ReadAll w f =
           (case rfault fi of None \<Rightarrow> (content fi, None)
            | Some (k, msg) \<Rightarrow> (take k (content fi), Some (EIO msg)))"
  using assms by (simp add: ioutil_ReadAll_def fd_file_def)

lemma Open_loads_marshal_fails:
  assumes loc: "locate lib c p = (cleaned, prefix)"
    and miss: "\<not> cache_hit c w prefix"
    and rd: "rfault (meta_inode w prefix) = None"
      "decode_meta lib (content (meta_inode w prefix)) = Inr meta0"
    and tok: "tok = (if names w (prefix @ ''.data'') = None then [] else Load meta0)"
    and r: "r = fst (loader c (remote w) cleaned tok)"
    and ok: "lerr r = None"
    and js: "json_Marshal lib
               (if cacheValid r
                then meta0\<lparr>RefreshTime := now w, Load := newMeta r, Path := cleaned\<rparr>
                else \<lparr>Path = cleaned, CreateTime = now w, RefreshTime = now w, Load = newMeta r\<rparr>)
             = Inl e"
  shows "fst (Open lib c w p) = Inl (Errorf ''preparing meta file: '' e)"
proof -
  from Open_loads_core [OF loc miss rd tok r]
  obtain w4 metaFile nxt where
    op: "Open lib c w p =
             (case lerr r of
                Some err \<Rightarrow> (Inl err, snd (File_Close (snd (File_Close w4 nxt)) metaFile))
              | None \<Rightarrow>
                  (fst (Open_install lib c w4 cleaned prefix metaFile (meta0\<lparr>Load := tok\<rparr>) nxt
                          (cacheValid r) (newMeta r)),
                   snd (File_Close
                          (snd (Open_install lib c w4 cleaned prefix metaFile
                                  (meta0\<lparr>Load := tok\<rparr>) nxt (cacheValid r) (newMeta r)))
                          metaFile)))"
    and w4: "names w4 = (names w)(prefix @ ''.meta'' \<mapsto> meta_inode w prefix,
                        prefix @ ''.next'' \<mapsto> \<lparr>content = written r, mtime = now w, rfault = None\<rparr>)"
      "now w4 = now w"
    and nxt: "fds w4 nxt = Some \<lparr>fd_link = Linked (prefix @ ''.next''), fd_locked = False\<rparr>"
    by blast
  have N: "names w4 (prefix @ ''.next'') = Some \<lparr>content = written r, mtime = now w, rfault = None\<rparr>"
    by (simp add: w4)
  show ?thesis
  proof (cases "cacheValid r")
    case True
    then show ?thesis
      using ok js by (simp add: op Open_install_valid w4)
  next
    case False
    then show ?thesis
      using ok js Open_install_new(1) [OF nxt _ N, where lib = lib and c = c and path = cleaned
          and metaFile = metaFile and tok = "newMeta r" and meta = "meta0\<lparr>Load := tok\<rparr>"]
      by (simp add: op w4)
  qed
qed

lemma Open_loads_marshal_fails_names:
  assumes loc: "locate lib c p = (cleaned, prefix)"
    and miss: "\<not> cache_hit c w prefix"
    and rd: "rfault (meta_inode w prefix) = None"
      "decode_meta lib (content (meta_inode w prefix)) = Inr meta0"
    and tok: "tok = (if names w (prefix @ ''.data'') = None then [] else Load meta0)"
    and r: "r = fst (loader c (remote w) cleaned tok)"
    and ok: "lerr r = None"
    and js: "json_Marshal lib
               (if cacheValid r
                then meta0\<lparr>RefreshTime := now w, Load := newMeta r, Path := cleaned\<rparr>
                else \<lparr>Path = cleaned, CreateTime = now w, RefreshTime = now w, Load = newMeta r\<rparr>)
             = Inl e"
  shows "names (snd (Open lib c w p)) =
           (if cacheValid r
            then (names w)(prefix @ ''.meta'' \<mapsto> meta_inode w prefix, prefix @ ''.next'' := None)
            else (names w)(prefix @ ''.meta'' \<mapsto> meta_inode w prefix, prefix @ ''.next'' := None,
                    prefix @ ''.data'' \<mapsto> \<lparr>content = written r, mtime = now w, rfault = None\<rparr>))"
proof -
  from Open_loads_core [OF loc miss rd tok r]
  obtain w4 metaFile nxt where
    op: "Open lib c w p =
             (case lerr r of
                Some err \<Rightarrow> (Inl err, snd (File_Close (snd (File_Close w4 nxt)) metaFile))
              | None \<Rightarrow>
                  (fst (Open_install lib c w4 cleaned prefix metaFile (meta0\<lparr>Load := tok\<rparr>) nxt
                          (cacheValid r) (newMeta r)),
                   snd (File_Close
                          (snd (Open_install lib c w4 cleaned prefix metaFile
                                  (meta0\<lparr>Load := tok\<rparr>) nxt (cacheValid r) (newMeta r)))
                          metaFile)))"
    and w4: "names w4 = (names w)(prefix @ ''.meta'' \<mapsto> meta_inode w prefix,
                        prefix @ ''.next'' \<mapsto> \<lparr>content = written r, mtime = now w, rfault = None\<rparr>)"
      "now w4 = now w"
    and nxt: "fds w4 nxt = Some \<lparr>fd_link = Linked (prefix @ ''.next''), fd_locked = False\<rparr>"
    by blast
  have N: "names w4 (prefix @ ''.next'') = Some \<lparr>content = written r, mtime = now w, rfault = None\<rparr>"
    by (simp add: w4)
  show ?thesis
  proof (cases "cacheValid r")
    case True
    then show ?thesis
      using ok js by (simp add: op Open_install_valid w4)
  next
    case False
    then show ?thesis
      using ok js Open_install_new(2) [OF nxt _ N, where lib = lib and c = c and path = cleaned
          and metaFile = metaFile and tok = "newMeta r" and meta = "meta0\<lparr>Load := tok\<rparr>"]
      by (simp add: op w4)
  qed
qed

text \<open>If the loader was called, the cache missed and the metadata could be read.\<close>

lemma Open_loaded:
  assumes loc: "locate lib c p = (cleaned, prefix)"
    and loaded: "calls (snd (Open lib c w p)) \<noteq> calls w"
  shows "\<not> cache_hit c w prefix \<and> rfault (meta_inode w prefix) = None \<and>
         (\<exists>meta0. decode_meta lib (content (meta_inode w prefix)) = Inr meta0)"
proof -
  have miss: "\<not> cache_hit c w prefix"
    using loaded Open_hit [OF loc, of w] by auto
  have rd: "rfault (meta_inode w prefix) = None"
  proof (cases "rfault (meta_inode w prefix)")
    case (Some km)
    then show ?thesis
      using loaded Open_unreadable [OF loc miss, of "fst km" "snd km"] by simp
  qed simp
  have "\<exists>meta0. decode_meta lib (content (meta_inode w prefix)) = Inr meta0"
  proof (cases "decode_meta lib (content (meta_inode w prefix))")
    case (Inl e)
    then show ?thesis
      using loaded Open_corrupt [OF loc miss rd] by simp
  qed simp
  then show ?thesis
    using miss rd by blast
qed

text \<open>What holds after every \<^verbatim>\<open>Open\<close> that returns a handle.\<close>

lemma Open_success:
  assumes loc: "locate lib c p = (cleaned, prefix)"
    and ok: "fst (Open lib c w p) = Inr f"
  shows "names (snd (Open lib c w p)) (prefix @ ''.meta'') \<noteq> None \<and>
         names (snd (Open lib c w p)) (prefix @ ''.data'') \<noteq> None \<and>
         fds (snd (Open lib c w p)) f =
           Some \<lparr>fd_link = Linked (prefix @ ''.data''), fd_locked = False\<rparr> \<and>
         (calls (snd (Open lib c w p)) = calls w \<or>
          (\<exists>x. calls (snd (Open lib c w p)) = calls w @ [x]))"
proof (cases "cache_hit c w prefix")
  case True
  then have "names w (prefix @ ''.data'') \<noteq> None"
    by (simp add: cache_hit_def)
  then show ?thesis
    using Open_hit [OF loc True] ok by auto
next
  case miss: False
  show ?thesis
  proof (cases "rfault (meta_inode w prefix)")
    case (Some km)
    then show ?thesis
      using ok Open_unreadable [OF loc miss, of "fst km" "snd km"] by simp
  next
    case rd: None
    show ?thesis
    proof (cases "decode_meta lib (content (meta_inode w prefix))")
      case (Inl e)
      then show ?thesis
        using ok Open_corrupt [OF loc miss rd] by simp
    next
      case dec: (Inr meta0)
      define tok where "tok = (if names w (prefix @ ''.data'') = None then [] else Load meta0)"
      define r where "r = fst (loader c (remote w) cleaned tok)"
      note calls = Open_loads_calls [OF loc miss rd dec tok_def r_def]
      show ?thesis
      proof (cases "lerr r")
        case (Some e)
        then show ?thesis
          using ok Open_loads_err [OF loc miss rd dec tok_def r_def] by simp
      next
        case noerr: None
        show ?thesis
        proof (cases "cacheValid r")
          case True
          show ?thesis
          proof (cases "json_Marshal lib
                          (meta0\<lparr>RefreshTime := now w, Load := newMeta r, Path := cleaned\<rparr>)")
            case (Inl e)
            then show ?thesis
              using ok True Open_loads_marshal_fails [OF loc miss rd dec tok_def r_def noerr, of e]
              by simp
          next
            case (Inr js)
            note v = Open_loads_valid [OF loc miss rd dec tok_def r_def noerr True Inr]
            show ?thesis
            proof (cases "names w (prefix @ ''.data'')")
              case None
              then show ?thesis using v ok by simp
            next
              case (Some fD)
              then show ?thesis using v ok calls by auto
            qed
          qed
        next
          case False
          show ?thesis
          proof (cases "json_Marshal lib
                          \<lparr>Path = cleaned, CreateTime = now w, RefreshTime = now w,
                            Load = newMeta r\<rparr>")
            case (Inl e)
            then show ?thesis
              using ok False Open_loads_marshal_fails [OF loc miss rd dec tok_def r_def noerr, of e]
              by simp
          next
            case (Inr js)
            then show ?thesis
              using Open_loads_new [OF loc miss rd dec tok_def r_def noerr False Inr] ok calls
              by auto
          qed
        qed
      qed
    qed
  qed
qed

text \<open>No path through \<^verbatim>\<open>Open\<close> creates, writes or removes the \<^verbatim>\<open>.used\<close> file.\<close>

lemma Open_keeps_used:
  assumes loc: "locate lib c p = (cleaned, prefix)"
  shows "names (snd (Open lib c w p)) (prefix @ ''.used'') = names w (prefix @ ''.used'')"
proof (cases "cache_hit c w prefix")
  case True
  then show ?thesis
    using Open_hit [OF loc True] by simp
next
  case miss: False
  show ?thesis
  proof (cases "rfault (meta_inode w prefix)")
    case (Some km)
    then show ?thesis
      using Open_unreadable [OF loc miss, of "fst km" "snd km"] by simp
  next
    case rd: None
    show ?thesis
    proof (cases "decode_meta lib (content (meta_inode w prefix))")
      case (Inl e)
      then show ?thesis
        using Open_corrupt [OF loc miss rd] by simp
    next
      case dec: (Inr meta0)
      define tok where "tok = (if names w (prefix @ ''.data'') = None then [] else Load meta0)"
      define r where "r = fst (loader c (remote w) cleaned tok)"
      show ?thesis
      proof (cases "lerr r")
        case (Some e)
        then show ?thesis
          using Open_loads_err [OF loc miss rd dec tok_def r_def] by simp
      next
        case noerr: None
        show ?thesis
        proof (cases "cacheValid r")
          case True
          show ?thesis
          proof (cases "json_Marshal lib
                          (meta0\<lparr>RefreshTime := now w, Load := newMeta r, Path := cleaned\<rparr>)")
            case (Inl e)
            then show ?thesis
              using True Open_loads_marshal_fails_names [OF loc miss rd dec tok_def r_def noerr, of e]
              by simp
          next
            case (Inr js)
            then show ?thesis
              using Open_loads_valid [OF loc miss rd dec tok_def r_def noerr True Inr] by simp
          qed
        next
          case False
          show ?thesis
          proof (cases "json_Marshal lib
                          \<lparr>Path = cleaned, CreateTime = now w, RefreshTime = now w,
                            Load = newMeta r\<rparr>")
            case (Inl e)
            then show ?thesis
              using False Open_loads_marshal_fails_names [OF loc miss rd dec tok_def r_def noerr, of e]
              by simp
          next
            case (Inr js)
            then show ?thesis
              using Open_loads_new [OF loc miss rd dec tok_def r_def noerr False Inr] by simp
          qed
        qed
      qed
    qed
  qed
qed

text \<open>
  With expiration 0 the modification time of \<^verbatim>\<open>.meta\<close> plays no part: whenever the
  \<^verbatim>\<open>.data\<close> file is there, \<^verbatim>\<open>Open\<close> returns a handle and does not call the loader.
\<close>

lemma Open_without_expiration:
  assumes loc: "locate lib c p = (cleaned, prefix)"
    and d: "expiration c = 0"
    and D: "names w (prefix @ ''.data'') = Some fD"
  shows "(\<exists>f. fst (Open lib c w p) = Inr f) \<and> calls (snd (Open lib c w p)) = calls w"
proof -
  have hit: "cache_hit c w prefix"
    using d D by (simp add: cache_hit_def)
  show ?thesis
    using Open_hit [OF loc hit] by simp
qed

subsection \<open>The package's test\<close>

text \<open>
  \<^verbatim>\<open>TestBasic\<close> passes on the model: the second read is served from the cache, the
  reads after \<^verbatim>\<open>SetExpiration(1 * time.Nanosecond)\<close> call the loader again, and the
  read after \<^verbatim>\<open>SetExpiration(0)\<close> does not.
\<close>

lemma TestBasic_passes:
  "TestBasic =
     [Inr (''hello, /file #1'' @ [CHR 0x0A]), Inr (''hello, /file #1'' @ [CHR 0x0A]),
      Inr (''hello, /file #2'' @ [CHR 0x0A]), Inr (''hello, /file #3'' @ [CHR 0x0A]),
      Inr (''hello, /file #3'' @ [CHR 0x0A])]"
  by code_simp

subsection \<open>Reading a file through the cache\<close>

lemma File_Close_closes: "fds (snd (File_Close w f)) f = None"
  by (simp add: File_Close_def split: option.split)

text \<open>
  C10. \<^verbatim>\<open>ReadFile(p)\<close> returns what \<^verbatim>\<open>ioutil.ReadAll\<close> reads from the handle
  \<^verbatim>\<open>Open(p)\<close> returned: all the bytes of the file when the read succeeds. It has
  closed the handle when it returns, whether the read succeeded or failed. When
  \<^verbatim>\<open>Open(p)\<close> fails, \<^verbatim>\<open>ReadFile\<close> returns nil bytes and the same error.
\<close>

theorem ReadFile_reads_and_closes:
  "(Open lib c w p = (Inr f, w1) \<longrightarrow>
      ReadFile lib c w p = (ioutil_ReadAll w1 f, snd (File_Close w1 f)) \<and>
      fds (snd (ReadFile lib c w p)) f = None \<and>
      (\<forall>fi. fd_file w1 f = Some fi \<and> rfault fi = None \<longrightarrow>
         fst (ReadFile lib c w p) = (content fi, None))) \<and>
   (Open lib c w p = (Inl e, w1) \<longrightarrow> ReadFile lib c w p = (([], Some e), w1))"
  by (auto simp: ReadFile_def File_Close_closes ioutil_ReadAll_def)

theorem ReadFile_reads_and_closes_witness:
  "Open test_lib test_cache stale_world ''file'' =
     (Inr 3, snd (Open test_lib test_cache stale_world ''file'')) \<and>
   fst (ReadFile test_lib test_cache stale_world ''file'') = (''old'', None) \<and>
   fds (snd (ReadFile test_lib test_cache stale_world ''file'')) 3 = None \<and>
   Open test_lib test_cache faulty_world ''file'' =
     (Inr 3, snd (Open test_lib test_cache faulty_world ''file'')) \<and>
   fst (ReadFile test_lib test_cache faulty_world ''file'') = (''ol'', Some (EIO ''disk'')) \<and>
   fds (snd (ReadFile test_lib test_cache faulty_world ''file'')) 3 = None \<and>
   Open test_lib test_cache corrupt_world ''file'' =
     (Inl (Errorf ''reading metadata file: '' SyntaxError),
      snd (Open test_lib test_cache corrupt_world ''file'')) \<and>
   fst (ReadFile test_lib test_cache corrupt_world ''file'') =
     ([], Some (Errorf ''reading metadata file: '' SyntaxError))"
proof -
  have o1: "fst (Open test_lib test_cache stale_world ''file'') = Inr 3"
    by code_simp
  have o2: "fst (Open test_lib test_cache faulty_world ''file'') = Inr 3"
    by code_simp
  have o3: "fst (Open test_lib test_cache corrupt_world ''file'') =
      Inl (Errorf ''reading metadata file: '' SyntaxError)"
    by code_simp
  have e1: "Open test_lib test_cache stale_world ''file'' =
     (Inr 3, snd (Open test_lib test_cache stale_world ''file''))"
    using o1 by (simp add: prod_eq_iff)
  have e2: "Open test_lib test_cache faulty_world ''file'' =
     (Inr 3, snd (Open test_lib test_cache faulty_world ''file''))"
    using o2 by (simp add: prod_eq_iff)
  have e3: "Open test_lib test_cache corrupt_world ''file'' =
     (Inl (Errorf ''reading metadata file: '' SyntaxError),
      snd (Open test_lib test_cache corrupt_world ''file''))"
    using o3 by (simp add: prod_eq_iff)
  have f1: "fd_file (snd (Open test_lib test_cache stale_world ''file'')) 3 =
      Some \<lparr>content = ''old'', mtime = 5, rfault = None\<rparr>"
    by code_simp
  have r1: "ioutil_ReadAll (snd (Open test_lib test_cache stale_world ''file'')) 3 = (''old'', None)"
    by code_simp
  have r2: "ioutil_ReadAll (snd (Open test_lib test_cache faulty_world ''file'')) 3 =
      (''ol'', Some (EIO ''disk''))"
    by code_simp
  show ?thesis
    using ReadFile_reads_and_closes [of test_lib test_cache stale_world "''file''" 3
        "snd (Open test_lib test_cache stale_world ''file'')"]
      ReadFile_reads_and_closes [of test_lib test_cache faulty_world "''file''" 3
        "snd (Open test_lib test_cache faulty_world ''file'')"]
      ReadFile_reads_and_closes [of test_lib test_cache corrupt_world "''file''" _
        "snd (Open test_lib test_cache corrupt_world ''file'')"
        "Errorf ''reading metadata file: '' SyntaxError"]
      e1 e2 e3 f1 r1 r2
    by simp
qed

subsection \<open>A fresh install\<close>

text \<open>
  C5. When the loader, called during \<^verbatim>\<open>Open\<close>, returns \<^verbatim>\<open>cacheValid == false\<close>
  and no error (and the new metadata record encodes to \<open>js\<close>): \<^verbatim>\<open>Open\<close> returns a
  handle, and reading it gives exactly the bytes the loader wrote; the \<^verbatim>\<open>.next\<close>
  file is gone and \<^verbatim>\<open>.data\<close> is the file the loader wrote; \<^verbatim>\<open>.meta\<close> holds the
  encoding of the record with \<^verbatim>\<open>CreateTime = RefreshTime = now\<close>, the loader's new
  token and the cleaned path.
\<close>

theorem Open_installs_new_data:
  assumes loc: "locate lib c p = (cleaned, prefix)"
    and op: "Open lib c w p = (res, w')"
    and call: "calls w' = calls w @ [(cp, tok, lr)]"
    and new: "\<not> cacheValid lr" "lerr lr = None"
    and js: "json_Marshal lib \<lparr>Path = cleaned, CreateTime = now w, RefreshTime = now w,
               Load = newMeta lr\<rparr> = Inr js"
  shows "\<exists>f. res = Inr f \<and>
             ioutil_ReadAll w' f = (written lr, None) \<and>
             names w' (prefix @ ''.next'') = None \<and>
             names w' (prefix @ ''.data'') =
               Some \<lparr>content = written lr, mtime = now w, rfault = None\<rparr> \<and>
             names w' (prefix @ ''.meta'') =
               Some ((meta_inode w prefix)\<lparr>content := js, mtime := now w\<rparr>)"
proof -
  have w': "w' = snd (Open lib c w p)" and res: "res = fst (Open lib c w p)"
    by (simp_all add: op)
  have loaded: "calls (snd (Open lib c w p)) \<noteq> calls w"
    using call by (simp add: w' [symmetric])
  from Open_loaded [OF loc loaded]
  obtain meta0 where miss: "\<not> cache_hit c w prefix"
    and rd: "rfault (meta_inode w prefix) = None"
    and dec: "decode_meta lib (content (meta_inode w prefix)) = Inr meta0"
    by blast
  define tok0 where "tok0 = (if names w (prefix @ ''.data'') = None then [] else Load meta0)"
  define r where "r = fst (loader c (remote w) cleaned tok0)"
  have "calls w' = calls w @ [(cleaned, tok0, r)]"
    using Open_loads_calls [OF loc miss rd dec tok0_def r_def] by (simp add: w')
  then have lr: "lr = r"
    using call by simp
  have ok: "lerr r = None" "\<not> cacheValid r"
    using new lr by simp_all
  have js': "json_Marshal lib \<lparr>Path = cleaned, CreateTime = now w, RefreshTime = now w,
               Load = newMeta r\<rparr> = Inr js"
    using js lr by simp
  from Open_loads_new [OF loc miss rd dec tok0_def r_def ok js']
  obtain f where names: "names w' =
           (names w)(prefix @ ''.next'' := None,
              prefix @ ''.data'' \<mapsto> \<lparr>content = written r, mtime = now w, rfault = None\<rparr>,
              prefix @ ''.meta'' \<mapsto> (meta_inode w prefix)\<lparr>content := js, mtime := now w\<rparr>)"
    and f: "res = Inr f"
      "fds w' f = Some \<lparr>fd_link = Linked (prefix @ ''.data''), fd_locked = False\<rparr>"
    by (auto simp: w' res)
  have D: "names w' (prefix @ ''.data'') = Some \<lparr>content = written r, mtime = now w, rfault = None\<rparr>"
    by (simp add: names)
  have "ioutil_ReadAll w' f = (written lr, None)"
    using ReadAll_data_handle [OF f(2) D] by (simp add: lr)
  then show ?thesis
    using f(1) D by (simp add: names lr)
qed

theorem Open_installs_new_data_witness:
  "locate test_lib test_cache ''file'' = (''/file'', test_prefix) \<and>
   calls (snd (Open test_lib test_cache (empty_world 1000) ''file'')) =
     calls (empty_world 1000) @ [(''/file'', [], fst (loadHello () ''/file'' []))] \<and>
   \<not> cacheValid (fst (loadHello () ''/file'' [])) \<and>
   lerr (fst (loadHello () ''/file'' [])) = None \<and>
   json_Marshal test_lib \<lparr>Path = ''/file'', CreateTime = 1000, RefreshTime = 1000, Load = ''1''\<rparr> =
     Inr ''/file,1000,1000,1'' \<and>
   (\<exists>f. fst (Open test_lib test_cache (empty_world 1000) ''file'') = Inr f \<and>
        ioutil_ReadAll (snd (Open test_lib test_cache (empty_world 1000) ''file'')) f =
          (''hello, /file #1'' @ [CHR 0x0A], None) \<and>
        names (snd (Open test_lib test_cache (empty_world 1000) ''file'')) (test_prefix @ ''.next'') = None \<and>
        names (snd (Open test_lib test_cache (empty_world 1000) ''file'')) (test_prefix @ ''.data'') =
          Some \<lparr>content = ''hello, /file #1'' @ [CHR 0x0A], mtime = 1000, rfault = None\<rparr> \<and>
        names (snd (Open test_lib test_cache (empty_world 1000) ''file'')) (test_prefix @ ''.meta'') =
          Some \<lparr>content = ''/file,1000,1000,1'', mtime = 1000, rfault = None\<rparr>)"
proof -
  have loc: "locate test_lib test_cache ''file'' = (''/file'', test_prefix)"
    by code_simp
  have op: "Open test_lib test_cache (empty_world 1000) ''file'' =
              (fst (Open test_lib test_cache (empty_world 1000) ''file''),
               snd (Open test_lib test_cache (empty_world 1000) ''file''))"
    by simp
  have call: "calls (snd (Open test_lib test_cache (empty_world 1000) ''file'')) =
     calls (empty_world 1000) @ [(''/file'', [], fst (loadHello () ''/file'' []))]"
    by code_simp
  have new: "\<not> cacheValid (fst (loadHello () ''/file'' []))"
    "lerr (fst (loadHello () ''/file'' [])) = None"
    by code_simp+
  have tk: "newMeta (fst (loadHello () ''/file'' [])) = ''1''"
    "written (fst (loadHello () ''/file'' [])) = ''hello, /file #1'' @ [CHR 0x0A]"
    by code_simp+
  have nw: "now (empty_world 1000) = 1000"
    by code_simp
  have mi: "meta_inode (empty_world 1000) test_prefix = \<lparr>content = [], mtime = 1000, rfault = None\<rparr>"
    by code_simp
  have js: "json_Marshal test_lib \<lparr>Path = ''/file'', CreateTime = 1000, RefreshTime = 1000, Load = ''1''\<rparr> =
     Inr ''/file,1000,1000,1''"
    by code_simp
  have js': "json_Marshal test_lib \<lparr>Path = ''/file'', CreateTime = now (empty_world 1000),
      RefreshTime = now (empty_world 1000), Load = newMeta (fst (loadHello () ''/file'' []))\<rparr> =
     Inr ''/file,1000,1000,1''"
    using js by (simp add: tk nw)
  show ?thesis
    using Open_installs_new_data [OF loc op call new js'] loc call new js
    by (simp add: tk nw mi)
qed

subsection \<open>A revalidation\<close>

text \<open>
  What \<^verbatim>\<open>Open\<close> writes when the loader, called during it, returns
  \<^verbatim>\<open>cacheValid == true\<close> and no error: the \<^verbatim>\<open>.data\<close> file is left as it was,
  the \<^verbatim>\<open>.next\<close> file is removed, and \<^verbatim>\<open>.meta\<close> holds the encoding of the stored
  record \<open>m0\<close> with \<^verbatim>\<open>RefreshTime\<close> set to now, \<^verbatim>\<open>Load\<close> to the loader's
  token and \<^verbatim>\<open>Path\<close> to the cleaned path (the source assigns
  \<^verbatim>\<open>meta.Path = path\<close> on every refresh); \<^verbatim>\<open>CreateTime\<close> is the stored one.
\<close>

lemma Open_revalidates_record:
  assumes loc: "locate lib c p = (cleaned, prefix)"
    and op: "Open lib c w p = (res, w')"
    and call: "calls w' = calls w @ [(cp, tok, lr)]"
    and valid: "cacheValid lr" "lerr lr = None"
    and stored: "decode_meta lib (content (meta_inode w prefix)) = Inr m0"
    and js: "json_Marshal lib \<lparr>Path = cleaned, CreateTime = CreateTime m0, RefreshTime = now w,
               Load = newMeta lr\<rparr> = Inr js"
  shows "names w' (prefix @ ''.data'') = names w (prefix @ ''.data'') \<and>
         names w' (prefix @ ''.next'') = None \<and>
         names w' (prefix @ ''.meta'') =
           Some ((meta_inode w prefix)\<lparr>content := js, mtime := now w\<rparr>)"
proof -
  have w': "w' = snd (Open lib c w p)"
    by (simp add: op)
  have loaded: "calls (snd (Open lib c w p)) \<noteq> calls w"
    using call by (simp add: w' [symmetric])
  from Open_loaded [OF loc loaded]
  have miss: "\<not> cache_hit c w prefix"
    and rd: "rfault (meta_inode w prefix) = None"
    by blast+
  define tok0 where "tok0 = (if names w (prefix @ ''.data'') = None then [] else Load m0)"
  define r where "r = fst (loader c (remote w) cleaned tok0)"
  have "calls w' = calls w @ [(cleaned, tok0, r)]"
    using Open_loads_calls [OF loc miss rd stored tok0_def r_def] by (simp add: w')
  then have lr: "lr = r"
    using call by simp
  have ok: "lerr r = None" "cacheValid r"
    using valid lr by simp_all
  have m: "m0\<lparr>RefreshTime := now w, Load := newMeta r, Path := cleaned\<rparr> =
             \<lparr>Path = cleaned, CreateTime = CreateTime m0, RefreshTime = now w, Load = newMeta r\<rparr>"
    by (cases m0) simp
  have js': "json_Marshal lib (m0\<lparr>RefreshTime := now w, Load := newMeta r, Path := cleaned\<rparr>) = Inr js"
    using js lr by (simp add: m)
  have "names w' =
           (names w)(prefix @ ''.next'' := None,
              prefix @ ''.meta'' \<mapsto> (meta_inode w prefix)\<lparr>content := js, mtime := now w\<rparr>)"
    using Open_loads_valid [OF loc miss rd stored tok0_def r_def ok js'] by (simp add: w')
  then show ?thesis
    by simp
qed

text \<open>
  The token the loader is called with is the stored one, or nil when there is no
  \<^verbatim>\<open>.data\<close> file.
\<close>

lemma Open_loader_token:
  assumes loc: "locate lib c p = (cleaned, prefix)"
    and op: "Open lib c w p = (res, w')"
    and call: "calls w' = calls w @ [(cp, tok, lr)]"
    and stored: "decode_meta lib (content (meta_inode w prefix)) = Inr m0"
  shows "cp = cleaned \<and>
         tok = (if names w (prefix @ ''.data'') = None then [] else Load m0) \<and>
         lr = fst (loader c (remote w) cleaned tok)"
proof -
  have w': "w' = snd (Open lib c w p)"
    by (simp add: op)
  have loaded: "calls (snd (Open lib c w p)) \<noteq> calls w"
    using call by (simp add: w' [symmetric])
  from Open_loaded [OF loc loaded]
  have miss: "\<not> cache_hit c w prefix"
    and rd: "rfault (meta_inode w prefix) = None"
    by blast+
  define tok0 where "tok0 = (if names w (prefix @ ''.data'') = None then [] else Load m0)"
  define r where "r = fst (loader c (remote w) cleaned tok0)"
  have "calls w' = calls w @ [(cleaned, tok0, r)]"
    using Open_loads_calls [OF loc miss rd stored tok0_def r_def] by (simp add: w')
  then have "cp = cleaned" "tok = tok0" "lr = r"
    using call by simp_all
  then show ?thesis
    by (simp add: tok0_def r_def)
qed

text \<open>
  C6. Let the loader keep to its contract (it never answers ``valid'' to nil
  metadata) and let the stored record \<open>m0\<close> be one the cache wrote for this path
  (its \<^verbatim>\<open>Path\<close> is the cleaned path) or the zero record of an empty \<^verbatim>\<open>.meta\<close>
  file. When the loader, called during \<^verbatim>\<open>Open\<close>, returns
  \<^verbatim>\<open>cacheValid == true\<close> and no error: the \<^verbatim>\<open>.data\<close> file is left as it was,
  the \<^verbatim>\<open>.next\<close> file is removed, and the record written to \<^verbatim>\<open>.meta\<close> is the
  stored record with only \<^verbatim>\<open>RefreshTime\<close> (set to now) and \<^verbatim>\<open>Load\<close> (set to the
  loader's token) changed; \<^verbatim>\<open>CreateTime\<close> and \<^verbatim>\<open>Path\<close> are the stored ones.
\<close>

theorem Open_revalidates:
  assumes loc: "locate lib c p = (cleaned, prefix)"
    and op: "Open lib c w p = (res, w')"
    and call: "calls w' = calls w @ [(cp, tok, lr)]"
    and valid: "cacheValid lr" "lerr lr = None"
    and contract: "conforming c"
    and stored: "decode_meta lib (content (meta_inode w prefix)) = Inr m0"
    and own: "Path m0 = cleaned \<or> m0 = zero_metaDisk"
    and js: "json_Marshal lib (m0\<lparr>RefreshTime := now w, Load := newMeta lr\<rparr>) = Inr js"
  shows "names w' (prefix @ ''.data'') = names w (prefix @ ''.data'') \<and>
         names w' (prefix @ ''.next'') = None \<and>
         names w' (prefix @ ''.meta'') =
           Some ((meta_inode w prefix)\<lparr>content := js, mtime := now w\<rparr>)"
proof -
  from Open_loader_token [OF loc op call stored]
  have tok: "tok = (if names w (prefix @ ''.data'') = None then [] else Load m0)"
    and lr: "lr = fst (loader c (remote w) cleaned tok)"
    by blast+
  have "tok \<noteq> []"
  proof
    assume "tok = []"
    then have "\<not> cacheValid lr"
      using contract lr by (simp add: conforming_def)
    then show False
      using valid by simp
  qed
  then have "Load m0 \<noteq> []"
    using tok by (simp split: if_splits)
  then have "m0 \<noteq> zero_metaDisk"
    by (auto simp add: zero_metaDisk_def)
  then have path: "Path m0 = cleaned"
    using own by simp
  have m: "m0\<lparr>RefreshTime := now w, Load := newMeta lr\<rparr> =
             \<lparr>Path = cleaned, CreateTime = CreateTime m0, RefreshTime = now w, Load = newMeta lr\<rparr>"
    using path by (cases m0) simp
  have js': "json_Marshal lib \<lparr>Path = cleaned, CreateTime = CreateTime m0, RefreshTime = now w,
               Load = newMeta lr\<rparr> = Inr js"
    using js by (simp add: m)
  show ?thesis
    using Open_revalidates_record [OF loc op call valid stored js'] by simp
qed

theorem Open_revalidates_witness:
  "locate test_lib valid_cache ''file'' = (''/file'', test_prefix) \<and>
   calls (snd (Open test_lib valid_cache stale_world ''file'')) =
     calls stale_world @
       [(''/file'', ''v1'', \<lparr>cacheValid = True, newMeta = ''v2'', lerr = None, written = []\<rparr>)] \<and>
   conforming valid_cache \<and>
   decode_meta test_lib (content (meta_inode stale_world test_prefix)) =
     Inr \<lparr>Path = ''/file'', CreateTime = 5, RefreshTime = 5, Load = ''v1''\<rparr> \<and>
   json_Marshal test_lib \<lparr>Path = ''/file'', CreateTime = 5, RefreshTime = 1000, Load = ''v2''\<rparr> =
     Inr ''/file,5,1000,v2'' \<and>
   names (snd (Open test_lib valid_cache stale_world ''file'')) (test_prefix @ ''.data'') =
     Some \<lparr>content = ''old'', mtime = 5, rfault = None\<rparr> \<and>
   names (snd (Open test_lib valid_cache stale_world ''file'')) (test_prefix @ ''.next'') = None \<and>
   names (snd (Open test_lib valid_cache stale_world ''file'')) (test_prefix @ ''.meta'') =
     Some \<lparr>content = ''/file,5,1000,v2'', mtime = 1000, rfault = None\<rparr>"
proof -
  let ?lr = "\<lparr>cacheValid = True, newMeta = ''v2'', lerr = None, written = []\<rparr>"
  let ?m0 = "\<lparr>Path = ''/file'', CreateTime = 5, RefreshTime = 5, Load = ''v1''\<rparr>"
  have loc: "locate test_lib valid_cache ''file'' = (''/file'', test_prefix)"
    by code_simp
  have miss: "\<not> cache_hit valid_cache stale_world test_prefix"
    by code_simp
  have mi: "meta_inode stale_world test_prefix = \<lparr>content = ''/file,5,5,v1'', mtime = 5, rfault = None\<rparr>"
    by code_simp
  have dec: "decode_meta test_lib ''/file,5,5,v1'' = Inr ?m0"
    by code_simp
  have rd: "rfault (meta_inode stale_world test_prefix) = None"
    and stored: "decode_meta test_lib (content (meta_inode stale_world test_prefix)) = Inr ?m0"
    using dec by (simp_all add: mi)
  have D: "names stale_world (test_prefix @ ''.data'') = Some \<lparr>content = ''old'', mtime = 5, rfault = None\<rparr>"
    by code_simp
  have tok: "''v1'' = (if names stale_world (test_prefix @ ''.data'') = None then [] else Load ?m0)"
    by (simp add: D)
  have r: "?lr = fst (loader valid_cache (remote stale_world) ''/file'' ''v1'')"
    by code_simp
  have nw: "now stale_world = 1000"
    by code_simp
  have call: "calls (snd (Open test_lib valid_cache stale_world ''file'')) =
     calls stale_world @ [(''/file'', ''v1'', ?lr)]"
    by (rule Open_loads_calls [OF loc miss rd stored tok r])
  have contract: "conforming valid_cache"
    by (simp add: conforming_def valid_cache_def SetExpiration_def New_def loadValid_def)
  have own: "Path ?m0 = ''/file'' \<or> ?m0 = zero_metaDisk"
    by simp
  have js: "json_Marshal test_lib \<lparr>Path = ''/file'', CreateTime = 5, RefreshTime = 1000, Load = ''v2''\<rparr> =
     Inr ''/file,5,1000,v2''"
    by code_simp
  have js': "json_Marshal test_lib (?m0\<lparr>RefreshTime := now stale_world, Load := newMeta ?lr\<rparr>) =
     Inr ''/file,5,1000,v2''"
    using js by (simp add: nw)
  show ?thesis
    using Open_revalidates [OF loc prod.collapse [symmetric] call _ _ contract stored own js']
      loc call contract stored js D
    by (simp add: nw mi)
qed

subsection \<open>Two reads within the expiration window\<close>

text \<open>
  C7. \<^verbatim>\<open>ReadFile\<close> is open, read, close. If a first \<^verbatim>\<open>ReadFile(p)\<close> succeeds
  with bytes \<open>b1\<close>, and a second one follows at a time \<open>t\<close> within the expiration
  window of the entry it left (the expiration is zero, or \<open>t\<close> is before the
  \<^verbatim>\<open>.meta\<close> modification time plus the expiration), then the second returns the
  same bytes, calls the loader not at all, and the loader has been called at most once
  over the two.
\<close>

theorem ReadFile_twice:
  assumes loc: "locate lib c p = (cleaned, prefix)"
    and first: "ReadFile lib c w p = ((b1, None), w1)"
    and window: "expiration c = 0 \<or> t < mtime (meta_inode w1 prefix) + expiration c"
  shows "fst (ReadFile lib c (w1\<lparr>now := t\<rparr>) p) = (b1, None) \<and>
         calls (snd (ReadFile lib c (w1\<lparr>now := t\<rparr>) p)) = calls w1 \<and>
         length (calls (snd (ReadFile lib c (w1\<lparr>now := t\<rparr>) p))) \<le> Suc (length (calls w))"
proof -
  let ?wo = "snd (Open lib c w p)"
  let ?w2 = "w1\<lparr>now := t\<rparr>"
  obtain f where f: "fst (Open lib c w p) = Inr f"
    using first by (cases "fst (Open lib c w p)") (auto simp: ReadFile_def split_beta)
  have rd: "ioutil_ReadAll ?wo f = (b1, None)" and w1: "w1 = snd (File_Close ?wo f)"
    using first f by (auto simp: ReadFile_def split_beta)
  from Open_success [OF loc f]
  obtain fM fD where M: "names ?wo (prefix @ ''.meta'') = Some fM"
    and D: "names ?wo (prefix @ ''.data'') = Some fD"
    and h: "fds ?wo f = Some \<lparr>fd_link = Linked (prefix @ ''.data''), fd_locked = False\<rparr>"
    and calls1: "calls ?wo = calls w \<or> (\<exists>x. calls ?wo = calls w @ [x])"
    by auto
  have fD: "rfault fD = None" "content fD = b1"
    using rd ReadAll_data_handle [OF h D] by (auto split: option.splits)
  have n2: "names ?w2 = names ?wo" "calls ?w2 = calls ?wo"
    by (simp_all add: w1)
  have mi: "meta_inode ?w2 prefix = meta_inode w1 prefix"
    using M by (simp add: meta_inode_def w1)
  have hit: "cache_hit c ?w2 prefix"
    using window D by (simp add: cache_hit_def mi n2)
  let ?k = "case names ?w2 (prefix @ ''.meta'') of None \<Rightarrow> Suc (Suc (next_fd ?w2)) | Some f \<Rightarrow> next_fd ?w2"
  from Open_hit [OF loc hit]
  have o2: "fst (Open lib c ?w2 p) = Inr ?k"
    and nm2: "names (snd (Open lib c ?w2 p)) = (names ?w2)(prefix @ ''.meta'' \<mapsto> meta_inode ?w2 prefix)"
    and c2: "calls (snd (Open lib c ?w2 p)) = calls ?w2"
    and h2: "fds (snd (Open lib c ?w2 p)) ?k =
               Some \<lparr>fd_link = Linked (prefix @ ''.data''), fd_locked = False\<rparr>"
    by blast+
  have D2: "names (snd (Open lib c ?w2 p)) (prefix @ ''.data'') = Some fD"
    using D by (simp add: nm2 n2)
  have "ioutil_ReadAll (snd (Open lib c ?w2 p)) ?k = (b1, None)"
    using ReadAll_data_handle [OF h2 D2] fD by simp
  then have "fst (ReadFile lib c ?w2 p) = (b1, None)"
    using o2 by (simp add: ReadFile_def split_beta)
  moreover have "calls (snd (ReadFile lib c ?w2 p)) = calls w1"
    using o2 c2 by (simp add: ReadFile_def split_beta n2 w1)
  moreover have "length (calls w1) \<le> Suc (length (calls w))"
    using calls1 by (auto simp: w1)
  ultimately show ?thesis
    by simp
qed

theorem ReadFile_twice_witness:
  "locate test_lib test_cache ''file'' = (''/file'', test_prefix) \<and>
   fst (ReadFile test_lib test_cache (empty_world 1000) ''file'') =
     (''hello, /file #1'' @ [CHR 0x0A], None) \<and>
   expiration test_cache = 0 \<and>
   fst (ReadFile test_lib test_cache
          ((snd (ReadFile test_lib test_cache (empty_world 1000) ''file''))\<lparr>now := 2000\<rparr>) ''file'') =
     (''hello, /file #1'' @ [CHR 0x0A], None) \<and>
   calls (snd (ReadFile test_lib test_cache
          ((snd (ReadFile test_lib test_cache (empty_world 1000) ''file''))\<lparr>now := 2000\<rparr>) ''file'')) =
     calls (snd (ReadFile test_lib test_cache (empty_world 1000) ''file'')) \<and>
   length (calls (snd (ReadFile test_lib test_cache
          ((snd (ReadFile test_lib test_cache (empty_world 1000) ''file''))\<lparr>now := 2000\<rparr>) ''file'')))
     \<le> Suc (length (calls (empty_world 1000))) \<and>
   locate test_lib (SetExpiration test_cache 5000) ''file'' = (''/file'', test_prefix) \<and>
   fst (ReadFile test_lib (SetExpiration test_cache 5000) (empty_world 1000) ''file'') =
     (''hello, /file #1'' @ [CHR 0x0A], None) \<and>
   (2000 :: int) <
     mtime (meta_inode (snd (ReadFile test_lib (SetExpiration test_cache 5000) (empty_world 1000) ''file''))
              test_prefix)
     + expiration (SetExpiration test_cache 5000) \<and>
   fst (ReadFile test_lib (SetExpiration test_cache 5000)
          ((snd (ReadFile test_lib (SetExpiration test_cache 5000) (empty_world 1000) ''file''))
             \<lparr>now := 2000\<rparr>) ''file'') =
     (''hello, /file #1'' @ [CHR 0x0A], None)"
proof -
  let ?c = "SetExpiration test_cache 5000"
  have loc: "locate test_lib test_cache ''file'' = (''/file'', test_prefix)"
    by code_simp
  have r1: "fst (ReadFile test_lib test_cache (empty_world 1000) ''file'') =
     (''hello, /file #1'' @ [CHR 0x0A], None)"
    by code_simp
  have first: "ReadFile test_lib test_cache (empty_world 1000) ''file'' =
     ((''hello, /file #1'' @ [CHR 0x0A], None), snd (ReadFile test_lib test_cache (empty_world 1000) ''file''))"
    using r1 by (simp add: prod_eq_iff)
  have d: "expiration test_cache = 0"
    by code_simp
  note th = ReadFile_twice [OF loc first, of 2000, OF disjI1 [OF d]]
  have loc': "locate test_lib ?c ''file'' = (''/file'', test_prefix)"
    by code_simp
  have r1': "fst (ReadFile test_lib ?c (empty_world 1000) ''file'') =
     (''hello, /file #1'' @ [CHR 0x0A], None)"
    by code_simp
  have first': "ReadFile test_lib ?c (empty_world 1000) ''file'' =
     ((''hello, /file #1'' @ [CHR 0x0A], None), snd (ReadFile test_lib ?c (empty_world 1000) ''file''))"
    using r1' by (simp add: prod_eq_iff)
  have mt: "mtime (meta_inode (snd (ReadFile test_lib ?c (empty_world 1000) ''file'')) test_prefix) = 1000"
    by code_simp
  have d': "expiration ?c = 5000"
    by code_simp
  have win: "(2000 :: int) <
     mtime (meta_inode (snd (ReadFile test_lib ?c (empty_world 1000) ''file'')) test_prefix)
     + expiration ?c"
    by (simp add: mt d')
  note th' = ReadFile_twice [OF loc' first', of 2000, OF disjI2 [OF win]]
  show ?thesis
    by (intro conjI loc r1 d th [THEN conjunct1] th [THEN conjunct2, THEN conjunct1]
        th [THEN conjunct2, THEN conjunct2] loc' r1' win th' [THEN conjunct1])
qed

subsection \<open>Metadata without data\<close>

text \<open>
  C8. If the \<^verbatim>\<open>.data\<close> file cannot be opened and the metadata can be read, then
  whatever token the stored record \<open>m0\<close> holds, \<^verbatim>\<open>Open\<close> calls the loader, once,
  with the empty token.
\<close>

theorem Open_without_data_clears_token:
  assumes loc: "locate lib c p = (cleaned, prefix)"
    and nodata: "names w (prefix @ ''.data'') = None"
    and rd: "rfault (meta_inode w prefix) = None"
    and stored: "decode_meta lib (content (meta_inode w prefix)) = Inr m0"
  shows "calls (snd (Open lib c w p)) =
           calls w @ [(cleaned, [], fst (loader c (remote w) cleaned []))]"
proof -
  have miss: "\<not> cache_hit c w prefix"
    using nodata by (simp add: cache_hit_def)
  have tok: "[] = (if names w (prefix @ ''.data'') = None then [] else Load m0)"
    using nodata by simp
  show ?thesis
    by (rule Open_loads_calls [OF loc miss rd stored tok refl])
qed

theorem Open_without_data_clears_token_witness:
  "locate test_lib test_cache ''file'' = (''/file'', test_prefix) \<and>
   names no_data_world (test_prefix @ ''.data'') = None \<and>
   rfault (meta_inode no_data_world test_prefix) = None \<and>
   decode_meta test_lib (content (meta_inode no_data_world test_prefix)) =
     Inr \<lparr>Path = ''/file'', CreateTime = 5, RefreshTime = 5, Load = ''5''\<rparr> \<and>
   calls (snd (Open test_lib test_cache no_data_world ''file'')) =
     [(''/file'', [],
       \<lparr>cacheValid = False, newMeta = ''1'', lerr = None,
         written = ''hello, /file #1'' @ [CHR 0x0A]\<rparr>)]"
proof -
  have loc: "locate test_lib test_cache ''file'' = (''/file'', test_prefix)"
    by code_simp
  have nodata: "names no_data_world (test_prefix @ ''.data'') = None"
    by code_simp
  have mi: "meta_inode no_data_world test_prefix = \<lparr>content = ''/file,5,5,5'', mtime = 5, rfault = None\<rparr>"
    by code_simp
  have dec: "decode_meta test_lib ''/file,5,5,5'' =
     Inr \<lparr>Path = ''/file'', CreateTime = 5, RefreshTime = 5, Load = ''5''\<rparr>"
    by code_simp
  have rd: "rfault (meta_inode no_data_world test_prefix) = None"
    and stored: "decode_meta test_lib (content (meta_inode no_data_world test_prefix)) =
     Inr \<lparr>Path = ''/file'', CreateTime = 5, RefreshTime = 5, Load = ''5''\<rparr>"
    using dec by (simp_all add: mi)
  have r: "fst (loader test_cache () ''/file'' []) =
       \<lparr>cacheValid = False, newMeta = ''1'', lerr = None,
         written = ''hello, /file #1'' @ [CHR 0x0A]\<rparr>"
    by code_simp
  have c0: "calls no_data_world = []"
    by code_simp
  show ?thesis
    using Open_without_data_clears_token [OF loc nodata rd stored] loc nodata rd stored
    by (simp add: r c0)
qed

subsection \<open>Delete\<close>

text \<open>
  C9. If the entry of \<open>p\<close> exists (its \<^verbatim>\<open>.meta\<close> file does), \<^verbatim>\<open>Delete(p)\<close>
  takes the meta lock (\<open>metaLock\<close> returns a descriptor holding the lock), returns nil,
  leaves none of \<^verbatim>\<open>.data\<close>, \<^verbatim>\<open>.next\<close>, \<^verbatim>\<open>.used\<close>, \<^verbatim>\<open>.meta\<close> behind and
  has closed the lock's descriptor. If the entry does not exist, \<open>metaLock\<close> fails with
  ``not exist'' and \<^verbatim>\<open>Delete\<close> returns nil and changes nothing.
\<close>

theorem Delete_removes_entry:
  assumes loc: "locate lib c p = (cleaned, prefix)"
  shows "(names w (prefix @ ''.meta'') \<noteq> None \<longrightarrow>
            fst (metaLock w prefix) = Inr (next_fd w) \<and>
            fds (snd (metaLock w prefix)) (next_fd w) =
              Some \<lparr>fd_link = Linked (prefix @ ''.meta''), fd_locked = True\<rparr> \<and>
            fst (Delete lib c w p) = None \<and>
            names (snd (Delete lib c w p)) (prefix @ ''.data'') = None \<and>
            names (snd (Delete lib c w p)) (prefix @ ''.next'') = None \<and>
            names (snd (Delete lib c w p)) (prefix @ ''.used'') = None \<and>
            names (snd (Delete lib c w p)) (prefix @ ''.meta'') = None \<and>
            fds (snd (Delete lib c w p)) (next_fd w) = None) \<and>
         (names w (prefix @ ''.meta'') = None \<longrightarrow>
            fst (metaLock w prefix) = Inl ENOENT \<and> Delete lib c w p = (None, w))"
proof (cases "names w (prefix @ ''.meta'')")
  case None
  then have "metaLock w prefix = (Inl ENOENT, w)"
    by (simp add: metaLock_def os_OpenFile_RDWR_def)
  then show ?thesis
    using None loc by (simp add: Delete_def)
next
  case (Some fi)
  then show ?thesis
    using loc by (simp add: Delete_def Let_def split_beta split: option.split)
qed

theorem Delete_removes_entry_witness:
  "locate test_lib test_cache ''file'' = (''/file'', test_prefix) \<and>
   names full_world (test_prefix @ ''.meta'') \<noteq> None \<and>
   fst (Delete test_lib test_cache full_world ''file'') = None \<and>
   names (snd (Delete test_lib test_cache full_world ''file'')) (test_prefix @ ''.data'') = None \<and>
   names (snd (Delete test_lib test_cache full_world ''file'')) (test_prefix @ ''.next'') = None \<and>
   names (snd (Delete test_lib test_cache full_world ''file'')) (test_prefix @ ''.used'') = None \<and>
   names (snd (Delete test_lib test_cache full_world ''file'')) (test_prefix @ ''.meta'') = None \<and>
   names (empty_world 1000) (test_prefix @ ''.meta'') = None \<and>
   Delete test_lib test_cache (empty_world 1000) ''file'' = (None, empty_world 1000)"
proof -
  have loc: "locate test_lib test_cache ''file'' = (''/file'', test_prefix)"
    by code_simp
  have M: "names full_world (test_prefix @ ''.meta'') \<noteq> None"
    by code_simp
  have M0: "names (empty_world 1000) (test_prefix @ ''.meta'') = None"
    by code_simp
  show ?thesis
    using Delete_removes_entry [OF loc, of full_world] Delete_removes_entry [OF loc, of "empty_world 1000"]
      loc M M0
    by simp
qed

subsection \<open>Where the code departs from its documentation\<close>

text \<open>
  C1. The package comment says that a \<^verbatim>\<open>.meta\<close> file with modification time 0 marks
  the entry expired ``even if there is no expiration period'', and \<^verbatim>\<open>Expire\<close> that the
  cache ``will have to revalidate the local copy''. The test in \<^verbatim>\<open>Open\<close> is
  \<^verbatim>\<open>d == 0 || time.Now().Before(fi.ModTime().Add(d))\<close>: with expiration 0 it holds
  whatever the modification time is. Here \<^verbatim>\<open>Expire\<close> succeeds and sets the modification
  time to 0, and the next \<^verbatim>\<open>Open\<close> returns the cached file without calling the loader.
\<close>

theorem Expire_ignored_without_expiration:
  "expiration test_cache = 0 \<and>
   fst (Expire test_lib test_cache stale_world ''file'') = None \<and>
   names (snd (Expire test_lib test_cache stale_world ''file'')) (test_prefix @ ''.meta'') =
     Some \<lparr>content = ''/file,5,5,v1'', mtime = 0, rfault = None\<rparr> \<and>
   fst (Open test_lib test_cache (snd (Expire test_lib test_cache stale_world ''file'')) ''file'') =
     Inr 3 \<and>
   calls (snd (Open test_lib test_cache (snd (Expire test_lib test_cache stale_world ''file''))
                 ''file'')) = []"
proof -
  have a: "expiration test_cache = 0"
    by code_simp
  have b: "fst (Expire test_lib test_cache stale_world ''file'') = None"
    by code_simp
  have c: "names (snd (Expire test_lib test_cache stale_world ''file'')) (test_prefix @ ''.meta'') =
     Some \<lparr>content = ''/file,5,5,v1'', mtime = 0, rfault = None\<rparr>"
    by code_simp
  have d: "fst (Open test_lib test_cache (snd (Expire test_lib test_cache stale_world ''file'')) ''file'') =
     Inr 3"
    by code_simp
  have e: "calls (snd (Open test_lib test_cache (snd (Expire test_lib test_cache stale_world ''file''))
                 ''file'')) = []"
    by code_simp
  show ?thesis
    by (intro conjI a b c d e)
qed

text \<open>
  C2. The package comment says the \<^verbatim>\<open>.used\<close> file ``is rewritten each time the .data
  file is opened to satisfy a file open operation''. \<^verbatim>\<open>Open\<close> never writes it: after a
  first open that fetches the file there is no \<^verbatim>\<open>.used\<close> file, and after an open served
  from the cache at time 1000 an existing \<^verbatim>\<open>.used\<close> file still has its old
  modification time 5.
\<close>

theorem Open_does_not_touch_used:
  "fst (Open test_lib test_cache (empty_world 1000) ''file'') = Inr 6 \<and>
   names (snd (Open test_lib test_cache (empty_world 1000) ''file'')) (test_prefix @ ''.used'') = None \<and>
   fst (Open test_lib test_cache full_world ''file'') = Inr 3 \<and>
   names (snd (Open test_lib test_cache full_world ''file'')) (test_prefix @ ''.used'') =
     Some \<lparr>content = [CHR 0x0A], mtime = 5, rfault = None\<rparr>"
proof -
  have a: "fst (Open test_lib test_cache (empty_world 1000) ''file'') = Inr 6"
    by code_simp
  have b: "names (snd (Open test_lib test_cache (empty_world 1000) ''file'')) (test_prefix @ ''.used'') = None"
    by code_simp
  have c: "fst (Open test_lib test_cache full_world ''file'') = Inr 3"
    by code_simp
  have d: "names (snd (Open test_lib test_cache full_world ''file'')) (test_prefix @ ''.used'') =
     Some \<lparr>content = [CHR 0x0A], mtime = 5, rfault = None\<rparr>"
    by code_simp
  show ?thesis
    by (intro conjI a b c d)
qed

text \<open>
  C3. The package comment says that after installing a \<^verbatim>\<open>.data\<close> file the cache removes
  the oldest cached files ``until the data files again fit within the limit'';
  \<^verbatim>\<open>checkDataLimit\<close> has an empty body. With a limit of one byte, \<^verbatim>\<open>Open\<close> installs
  16 bytes of data and leaves them there.
\<close>

theorem checkDataLimit_evicts_nothing:
  "maxData (SetMaxData test_cache 1) = 1 \<and>
   fst (Open test_lib (SetMaxData test_cache 1) (empty_world 1000) ''file'') = Inr 6 \<and>
   names (snd (Open test_lib (SetMaxData test_cache 1) (empty_world 1000) ''file''))
     (test_prefix @ ''.data'') =
     Some \<lparr>content = ''hello, /file #1'' @ [CHR 0x0A], mtime = 1000, rfault = None\<rparr> \<and>
   int (length (''hello, /file #1'' @ [CHR 0x0A])) = 16"
proof -
  have a: "maxData (SetMaxData test_cache 1) = 1"
    by code_simp
  have b: "fst (Open test_lib (SetMaxData test_cache 1) (empty_world 1000) ''file'') = Inr 6"
    by code_simp
  have c: "names (snd (Open test_lib (SetMaxData test_cache 1) (empty_world 1000) ''file''))
     (test_prefix @ ''.data'') =
     Some \<lparr>content = ''hello, /file #1'' @ [CHR 0x0A], mtime = 1000, rfault = None\<rparr>"
    by code_simp
  have d: "int (length (''hello, /file #1'' @ [CHR 0x0A])) = 16"
    by simp
  show ?thesis
    by (intro conjI a b c d)
qed

text \<open>
  C4. When the loader fails, \<^verbatim>\<open>Open\<close> closes \<^verbatim>\<open>.next\<close> and returns the loader's
  error, and the \<^verbatim>\<open>.meta\<close> file is as it was, but \<^verbatim>\<open>Open\<close> does not remove the
  \<^verbatim>\<open>.next\<close> file (the branch for a valid cache does): the file stays, with what the
  loader wrote.
\<close>

theorem Open_keeps_next_on_load_error:
  "names no_data_world (test_prefix @ ''.next'') = None \<and>
   fst (Open test_lib fail_cache no_data_world ''file'') = Inl (LoadError ''unreachable'') \<and>
   names (snd (Open test_lib fail_cache no_data_world ''file'')) (test_prefix @ ''.next'') =
     Some \<lparr>content = ''part'', mtime = 1000, rfault = None\<rparr> \<and>
   names (snd (Open test_lib fail_cache no_data_world ''file'')) (test_prefix @ ''.meta'') =
     names no_data_world (test_prefix @ ''.meta'') \<and>
   fds (snd (Open test_lib fail_cache no_data_world ''file'')) = fds no_data_world"
proof -
  have a: "names no_data_world (test_prefix @ ''.next'') = None"
    by code_simp
  have b: "fst (Open test_lib fail_cache no_data_world ''file'') = Inl (LoadError ''unreachable'')"
    by code_simp
  have c: "names (snd (Open test_lib fail_cache no_data_world ''file'')) (test_prefix @ ''.next'') =
     Some \<lparr>content = ''part'', mtime = 1000, rfault = None\<rparr>"
    by code_simp
  have d: "names (snd (Open test_lib fail_cache no_data_world ''file'')) (test_prefix @ ''.meta'') =
     names no_data_world (test_prefix @ ''.meta'')"
    by code_simp
  have e: "fds (snd (Open test_lib fail_cache no_data_world ''file'')) k = fds no_data_world k" for k
    by code_simp simp
  show ?thesis
    by (intro conjI a b c d ext e)
qed

end
